theory Spec2Isabelle
  imports Main "HOL-Library.AList"
begin

section \<open>Python values used by bot.py\<close>

text \<open>
  A Python \<open>str\<close> is modelled by its UTF-8 encoding, a \<open>string\<close> of bytes: the
  non-ASCII characters of the source's literals (emoji, the bullet) are spelled as their
  UTF-8 bytes, and so is the text of a message. Python counts characters (code points),
  not bytes: \<open>len\<close> and slicing are \<open>py_len\<close> and \<open>py_take\<close> below. Comparison,
  concatenation, \<open>startswith\<close> and \<open>split\<close> at an ASCII character act on the
  encoding as they act on the characters. Python integers are \<open>int\<close>; lengths and loop
  counters are \<open>nat\<close>. A dictionary with a fixed set of keys is a record whose optional
  keys have an \<open>option\<close> type (\<open>None\<close>: the key is absent, or holds Python's
  \<open>None\<close>, which \<open>dict.get\<close> does not tell apart).
\<close>

text \<open>
  A byte \<open>10xxxxxx\<close> continues a character; every other byte starts one. \<open>len(t)\<close>
  is the number of characters of \<open>t\<close>, \<open>t[:n]\<close> its first \<open>n\<close> characters.
\<close>

definition is_continuation :: "char \<Rightarrow> bool" where
  "is_continuation c = (128 \<le> (of_char c :: nat) \<and> (of_char c :: nat) < 192)"

definition py_len :: "string \<Rightarrow> nat" where
  "py_len t = length (filter (\<lambda>c. \<not> is_continuation c) t)"

fun py_take :: "nat \<Rightarrow> string \<Rightarrow> string" where
  "py_take n [] = []"
| "py_take n (c # cs) =
     (if is_continuation c then c # py_take n cs
      else (case n of 0 \<Rightarrow> [] | Suc m \<Rightarrow> c # py_take m cs))"

definition nl :: string where
  "nl = [CHR 0x0A]"

text \<open>Truthiness of an optional string: \<open>None\<close> and \<open>''\<close> are false.\<close>

fun nonempty :: "string option \<Rightarrow> string option" where
  "nonempty None = None"
| "nonempty (Some s) = (if s = [] then None else Some s)"

definition truthy :: "string option \<Rightarrow> bool" where
  "truthy v = (nonempty v \<noteq> None)"

text \<open>\<open>str(n)\<close> for an integer, as an f-string renders it.\<close>

definition digit_char :: "nat \<Rightarrow> char" where
  "digit_char d = ''0123456789'' ! d"

function str_nat :: "nat \<Rightarrow> string" where
  "str_nat n = (if n < 10 then [digit_char n] else str_nat (n div 10) @ [digit_char (n mod 10)])"
  by pat_completeness auto
termination
  by (relation "measure id") auto

definition str_int :: "int \<Rightarrow> string" where
  "str_int i = (if i < 0 then CHR ''-'' # str_nat (nat (- i)) else str_nat (nat i))"

text \<open>\<open>f"{v}"\<close> for an optional string: Python prints \<open>None\<close> as the word.\<close>

fun str_opt :: "string option \<Rightarrow> string" where
  "str_opt None = ''None''"
| "str_opt (Some s) = s"

section \<open>Data model\<close>

text \<open>A \<open>MessageEntity\<close> of the transport: type, offset, length.\<close>

type_synonym entity = "string \<times> nat \<times> nat"

text \<open>
  The incoming \<open>telegram.Message\<close>, with the attributes the handlers and the filters
  of \<open>setup_handlers\<close> read. \<open>msg_photo\<close> lists the file ids of the photo sizes (empty
  when the message has no photo); \<open>msg_video\<close> and \<open>msg_document\<close> hold the file id of
  the attachment; \<open>msg_forward_date\<close> is the time stamp of a forwarded message.
  \<open>text_html\<close>, \<open>text_markdown\<close> and \<open>caption_html\<close> are computed by the library
  and are taken as given.
\<close>

record chat =
  chat_id :: int
  chat_title :: "string option"
  chat_username :: "string option"
  chat_type :: string

record message =
  msg_message_id :: int
  msg_text :: "string option"
  msg_text_html :: "string option"
  msg_text_markdown :: "string option"
  msg_entities :: "entity list"
  msg_photo :: "string list"
  msg_video :: "string option"
  msg_document :: "string option"
  msg_caption :: "string option"
  msg_caption_html :: "string option"
  msg_caption_entities :: "entity list"
  msg_forward_date :: "int option"
  msg_forward_from_chat :: "chat option"

text \<open>
  The dictionary \<open>message_data\<close> built by \<open>handle_text_message\<close>: one content block
  of a post. The keys \<open>photo\<close>, \<open>video\<close>, \<open>document\<close>, \<open>caption\<close> and
  \<open>caption_entities\<close> are present only for media. For \<open>caption\<close> the two layers are
  kept apart, because \<open>msg_data.get('caption', '')\<close> is \<open>''\<close> for an absent key and
  \<open>None\<close> for a key that holds \<open>None\<close>.
\<close>

record message_data =
  md_text :: "string option"
  md_parse_mode :: string
  md_entities :: "entity list"
  md_message_id :: int
  md_date :: string
  md_photo :: "string option"
  md_video :: "string option"
  md_document :: "string option"
  md_caption :: "string option option"
  md_caption_entities :: "entity list option"

text \<open>The dictionary \<open>channel_data\<close> stored in \<open>db.channels\<close>.\<close>

record channel =
  ch_id :: int
  ch_name :: "string option"
  ch_username :: "string option"
  ch_type :: string
  ch_admins :: "int list"
  ch_owner_id :: int
  ch_added_date :: string
  ch_bot_token :: "string option"
  ch_timezone :: string

text \<open>The dictionary \<open>post_data\<close> stored in \<open>db.posts\<close>.\<close>

record post_data =
  post_id :: string
  post_channel_id :: int
  post_user_id :: int
  post_messages_sent :: "message_data list"
  post_sent_messages :: "int list"
  post_sent_date :: string
  post_type :: string

text \<open>The dictionary stored in \<open>db.users\<close>.\<close>

record user_record =
  usr_id :: "int option"
  usr_username :: "string option"
  usr_first_name :: "string option"
  usr_language :: "string option"

text \<open>
  \<open>class Database\<close>. \<open>users\<close> and \<open>posts\<close> are only read and written by key:
  they are maps. \<open>channels\<close> is also enumerated (\<open>channels.values()\<close>), so it is an
  association list in insertion order, as a Python dictionary is: \<open>AList.update\<close>
  replaces the value of a key in place and appends a new key at the end. No statement
  of the source writes \<open>scheduled_posts\<close>, \<open>bots\<close> or \<open>subscriptions\<close>;
  \<open>scheduled_posts\<close> is kept, keyed like \<open>posts\<close>, with the due time as its value,
  so that what the scheduling path leaves in it can be stated.
\<close>

record database =
  users :: "int \<rightharpoonup> user_record"
  channels :: "(int \<times> channel) list"
  posts :: "string \<rightharpoonup> post_data"
  scheduled_posts :: "string \<rightharpoonup> string"

definition empty_database :: database where
  "empty_database = \<lparr>users = Map.empty, channels = [], posts = Map.empty,
     scheduled_posts = Map.empty\<rparr>"

definition save_user :: "int \<Rightarrow> user_record \<Rightarrow> database \<Rightarrow> database" where
  "save_user user_id data d = d\<lparr>users := (users d)(user_id \<mapsto> data)\<rparr>"

definition get_user :: "database \<Rightarrow> int \<Rightarrow> user_record option" where
  "get_user d user_id = users d user_id"

definition save_channel :: "int \<Rightarrow> channel \<Rightarrow> database \<Rightarrow> database" where
  "save_channel channel_id data d = d\<lparr>channels := AList.update channel_id data (channels d)\<rparr>"

text \<open>
  \<open>db.get_channel(channel_id)\<close>; the argument is what \<open>user_data.get('selected_channel')\<close>
  returned, so it may be \<open>None\<close>, which is no key of \<open>db.channels\<close>.
\<close>

definition get_channel :: "database \<Rightarrow> int option \<Rightarrow> channel option" where
  "get_channel d channel_id =
     (case channel_id of None \<Rightarrow> None | Some c \<Rightarrow> map_of (channels d) c)"

definition get_user_channels :: "database \<Rightarrow> int \<Rightarrow> channel list" where
  "get_user_channels d user_id =
     filter (\<lambda>c. user_id \<in> set (ch_admins c)) (map snd (channels d))"

text \<open>
  \<open>context.user_data\<close> of one user: \<open>None\<close> is an absent key. The library keeps one
  such dictionary per user id, empty at first.
\<close>

record session =
  adding_channel :: "bool option"
  creating_post :: "bool option"
  selected_channel :: "int option"
  post_messages :: "message_data list option"
  scheduling_post :: "bool option"
  replying_to :: "(int \<times> int \<times> int) option"

definition empty_session :: session where
  "empty_session = \<lparr>adding_channel = None, creating_post = None, selected_channel = None,
     post_messages = None, scheduling_post = None, replying_to = None\<rparr>"

section \<open>Effects\<close>

text \<open>
  A call on the channel's bot: \<open>send_photo\<close> and \<open>send_video\<close> with chat id, file id,
  caption and caption entities; \<open>send_message\<close> with chat id, text and entities. The
  parse mode is \<open>HTML\<close> in every call of the source.
\<close>

datatype send_call =
    Send_photo int string "string option" "entity list option"
  | Send_video int string "string option" "entity list option"
  | Send_message int string "entity list"

text \<open>
  The trace lists, in program order, what a handler does to the outside: messages to the
  user's chat, calls on the channel's bot with their outcome (\<open>Inl\<close>: the
  \<open>TelegramError\<close> raised, \<open>Inr\<close>: the \<open>message_id\<close> of the sent message), writes to
  the store (by key) and log lines. Calls on the user's chat are taken to succeed.
  Inline keyboards are left out.
\<close>

datatype event =
    Reply_text string
  | Query_answer "string option"
  | Edit_message_text string
  | Channel_send send_call "string + int"
  | Db_save_user int
  | Db_save_channel int
  | Db_put_post string
  | Logger_error string

record state =
  db :: database
  user_data :: "int \<Rightarrow> session"
  trace :: "event list"

definition emit :: "event \<Rightarrow> state \<Rightarrow> state" where
  "emit ev s = s\<lparr>trace := trace s @ [ev]\<rparr>"

text \<open>
  What the handlers get from outside: the transport (which may answer differently as the
  trace grows, so that a call can fail once and succeed later), the construction of the
  channel's bot (\<open>Some e\<close>: \<open>TelegramBot(token=...)\<close> raises the \<open>TelegramError\<close> \<open>e\<close>),
  the membership query, and the clock as the three renderings the source asks for. Two
  builtins of the interpreter rest on tables of Unicode that are taken as given:
  \<open>int_non_ascii\<close> is \<open>int(lit)\<close> for a literal that is not pure ASCII (\<open>None\<close>: it
  raises \<open>ValueError\<close>), and \<open>py_repr\<close> is \<open>repr\<close> of a string.
\<close>

record env =
  get_chat_member :: "int \<Rightarrow> int \<Rightarrow> string + string"
  bot_init :: "string \<Rightarrow> string option"
  channel_send :: "event list \<Rightarrow> send_call \<Rightarrow> string + int"
  now_isoformat :: string
  now_timestamp :: string
  now_strftime :: string
  bot_username :: string
  int_non_ascii :: "string \<Rightarrow> int option"
  py_repr :: "string \<Rightarrow> string"

section \<open>Delivery: send_post_to_channel\<close>

text \<open>\<open>msg_data.get('caption', '')\<close>.\<close>

definition get_caption :: "message_data \<Rightarrow> string option" where
  "get_caption msg_data = (case md_caption msg_data of None \<Rightarrow> Some [] | Some v \<Rightarrow> v)"

text \<open>
  The \<open>if\<close>/\<open>elif\<close> chain of the loop body: the call made for one block, \<open>None\<close>
  for the \<open>else: continue\<close> branch.
\<close>

definition block_call :: "int \<Rightarrow> message_data \<Rightarrow> send_call option" where
  "block_call channel_id msg_data =
     (case nonempty (md_photo msg_data) of
        Some photo \<Rightarrow>
          Some (Send_photo channel_id photo (get_caption msg_data) (md_caption_entities msg_data))
      | None \<Rightarrow>
     (case nonempty (md_video msg_data) of
        Some video \<Rightarrow>
          Some (Send_video channel_id video (get_caption msg_data) (md_caption_entities msg_data))
      | None \<Rightarrow>
     (case nonempty (md_text msg_data) of
        Some text \<Rightarrow> Some (Send_message channel_id text (md_entities msg_data))
      | None \<Rightarrow> None)))"

text \<open>
  The \<open>for msg_data in post_messages\<close> loop, with \<open>sent_messages\<close> as accumulator. A
  \<open>TelegramError\<close> leaves the loop at once (\<open>Inl\<close>); the trace keeps the failed call.
\<close>

fun send_loop ::
  "env \<Rightarrow> int \<Rightarrow> message_data list \<Rightarrow> int list \<Rightarrow> event list \<Rightarrow> event list \<times> (string + int list)"
where
  "send_loop e channel_id [] sent_messages tr = (tr, Inr sent_messages)"
| "send_loop e channel_id (msg_data # rest) sent_messages tr =
     (case block_call channel_id msg_data of
        None \<Rightarrow> send_loop e channel_id rest sent_messages tr
      | Some c \<Rightarrow>
          (case channel_send e tr c of
             Inl err \<Rightarrow> (tr @ [Channel_send c (Inl err)], Inl err)
           | Inr mid \<Rightarrow>
               send_loop e channel_id rest (sent_messages @ [mid]) (tr @ [Channel_send c (Inr mid)])))"

definition check_mark :: string where
  "check_mark = [CHR 0xE2, CHR 0x9C, CHR 0x85]"

definition success_text :: "channel \<Rightarrow> int list \<Rightarrow> string \<Rightarrow> string" where
  "success_text ch sent_messages time =
     nl @ check_mark @ '' <b>Post Successfully Sent!</b>'' @ nl @ nl @
     ''<b>Channel:</b> '' @ str_opt (ch_name ch) @ nl @
     ''<b>Messages:</b> '' @ str_nat (length sent_messages) @ nl @
     ''<b>Time:</b> '' @ time @ nl @ nl @
     ''You can now reply to this post directly in the channel.'' @ nl @
     replicate 12 CHR '' ''"

definition telegram_error :: "string \<Rightarrow> state \<Rightarrow> state" where
  "telegram_error err s =
     emit (Query_answer (Some (''Error sending post: '' @ err)))
       (emit (Logger_error (''Error sending post: '' @ err)) s)"

definition send_post_to_channel :: "env \<Rightarrow> int \<Rightarrow> state \<Rightarrow> state" where
  "send_post_to_channel e uid s =
     (let channel_id = selected_channel (user_data s uid);
          msgs = (case post_messages (user_data s uid) of None \<Rightarrow> [] | Some ms \<Rightarrow> ms)
      in case (channel_id, get_channel (db s) channel_id) of
           (Some cid, Some ch) \<Rightarrow>
             if msgs = [] then emit (Query_answer (Some ''No content to send.'')) s
             else
               (case nonempty (ch_bot_token ch) of
                  None \<Rightarrow>
                    emit (Query_answer
                      (Some ''No bot connected to this channel. Please add a bot first.'')) s
                | Some bot_token \<Rightarrow>
                    (case bot_init e bot_token of
                       Some err \<Rightarrow> telegram_error err s
                     | None \<Rightarrow>
                         (case send_loop e cid msgs [] (trace s) of
                            (tr, Inl err) \<Rightarrow> telegram_error err (s\<lparr>trace := tr\<rparr>)
                          | (tr, Inr sent_messages) \<Rightarrow>
                              (let pid = str_int cid @ ''_'' @ now_timestamp e;
                                   pdata = \<lparr>post_id = pid,
                                     post_channel_id = cid,
                                     post_user_id = uid,
                                     post_messages_sent = msgs,
                                     post_sent_messages = sent_messages,
                                     post_sent_date = now_isoformat e,
                                     post_type = ''instant''\<rparr>
                               in s\<lparr>db := (db s)\<lparr>posts := (posts (db s))(pid \<mapsto> pdata)\<rparr>,
                                    user_data := (user_data s)
                                      (uid := (user_data s uid)\<lparr>post_messages := None,
                                         selected_channel := None, creating_post := None\<rparr>),
                                    trace := tr @ [Db_put_post pid,
                                      Edit_message_text
                                        (success_text ch sent_messages (now_strftime e))]\<rparr>))))
         | _ \<Rightarrow> emit (Query_answer (Some ''Channel not found.'')) s)"

section \<open>Composer: show_post_preview and handle_text_message\<close>

definition emoji_clipboard :: string where
  "emoji_clipboard = [CHR 0xF0, CHR 0x9F, CHR 0x93, CHR 0x8B]"

definition emoji_memo :: string where
  "emoji_memo = [CHR 0xF0, CHR 0x9F, CHR 0x93, CHR 0x9D]"

definition emoji_camera :: string where
  "emoji_camera = [CHR 0xF0, CHR 0x9F, CHR 0x93, CHR 0xB7]"

definition emoji_movie :: string where
  "emoji_movie = [CHR 0xF0, CHR 0x9F, CHR 0x8E, CHR 0xA5]"

definition emoji_page :: string where
  "emoji_page = [CHR 0xF0, CHR 0x9F, CHR 0x93, CHR 0x84]"

text \<open>The first three lines of \<open>preview_text\<close>.\<close>

definition preview_header :: "channel option \<Rightarrow> nat \<Rightarrow> string" where
  "preview_header ch n =
     emoji_clipboard @ '' <b>Post Preview</b>'' @ nl @ nl @
     ''<b>Channel:</b> '' @
       (case ch of Some c \<Rightarrow> str_opt (ch_name c) | None \<Rightarrow> ''Not selected'') @ nl @
     ''<b>Messages:</b> '' @ str_nat n @ nl @ nl"

text \<open>
  The body of the preview loop: what one block adds to \<open>preview_text\<close> (nothing when
  none of the four keys is truthy).
\<close>

definition preview_line :: "nat \<times> message_data \<Rightarrow> string" where
  "preview_line im =
     (case im of (i, msg) \<Rightarrow>
       (case nonempty (md_text msg) of
          Some text \<Rightarrow>
            str_nat i @ ''. '' @ emoji_memo @ '' '' @
              (if py_len text > 100 then py_take 100 text @ ''...'' else text) @ nl
        | None \<Rightarrow>
            if truthy (md_photo msg) then
              str_nat i @ ''. '' @ emoji_camera @ '' Photo with caption'' @ nl
            else if truthy (md_video msg) then
              str_nat i @ ''. '' @ emoji_movie @ '' Video with caption'' @ nl
            else if truthy (md_document msg) then
              str_nat i @ ''. '' @ emoji_page @ '' Document with caption'' @ nl
            else []))"

text \<open>The loop \<open>for i, msg in enumerate(post_messages[:3], 1)\<close>.\<close>

fun preview_loop :: "(nat \<times> message_data) list \<Rightarrow> string \<Rightarrow> string" where
  "preview_loop [] preview_text = preview_text"
| "preview_loop (im # rest) preview_text = preview_loop rest (preview_text @ preview_line im)"

definition build_preview :: "channel option \<Rightarrow> message_data list \<Rightarrow> string" where
  "build_preview ch msgs =
     (let preview_text = preview_loop (enumerate 1 (take 3 msgs))
            (preview_header ch (length msgs))
      in if length msgs > 3
         then preview_text @ nl @ ''... and '' @ str_nat (length msgs - 3) @ '' more messages''
         else preview_text)"

definition show_post_preview :: "int \<Rightarrow> bool \<Rightarrow> state \<Rightarrow> state" where
  "show_post_preview uid is_callback s =
     (let msgs = (case post_messages (user_data s uid) of None \<Rightarrow> [] | Some ms \<Rightarrow> ms);
          channel_id = selected_channel (user_data s uid);
          ch = (if channel_id \<noteq> None \<and> channel_id \<noteq> Some 0
                then get_channel (db s) channel_id else None);
          text = (if msgs = []
                  then ''No content added yet. Send me messages to build your post.''
                  else build_preview ch msgs)
      in if is_callback then emit (Edit_message_text text) s else emit (Reply_text text) s)"

text \<open>
  The dictionary \<open>message_data\<close> that \<open>handle_text_message\<close> builds from the incoming
  message; \<open>now\<close> is \<open>datetime.now().isoformat()\<close>.
\<close>

definition html_or :: "string option \<Rightarrow> string option \<Rightarrow> string option" where
  "html_or html plain = (if truthy html then html else plain)"

definition make_message_data :: "string \<Rightarrow> message \<Rightarrow> message_data" where
  "make_message_data now m =
     (let base = \<lparr>md_text = html_or (msg_text_html m) (msg_text_markdown m),
            md_parse_mode = (if truthy (msg_text_html m) then ''HTML'' else ''Markdown''),
            md_entities = msg_entities m,
            md_message_id = msg_message_id m,
            md_date = now,
            md_photo = None, md_video = None, md_document = None,
            md_caption = None, md_caption_entities = None\<rparr>;
          cap = Some (html_or (msg_caption_html m) (msg_caption m));
          ents = Some (msg_caption_entities m)
      in if msg_photo m \<noteq> [] then
           base\<lparr>md_photo := Some (last (msg_photo m)), md_caption := cap,
             md_caption_entities := ents\<rparr>
         else if msg_video m \<noteq> None then
           base\<lparr>md_video := msg_video m, md_caption := cap, md_caption_entities := ents\<rparr>
         else if msg_document m \<noteq> None then
           base\<lparr>md_document := msg_document m, md_caption := cap, md_caption_entities := ents\<rparr>
         else base)"

definition handle_text_message :: "env \<Rightarrow> int \<Rightarrow> message \<Rightarrow> state \<Rightarrow> state" where
  "handle_text_message e uid m s =
     (if creating_post (user_data s uid) = Some True then
        (case get_channel (db s) (selected_channel (user_data s uid)) of
           None \<Rightarrow> emit (Reply_text ''Channel not found.'') s
         | Some ch \<Rightarrow>
             (let old = (case post_messages (user_data s uid) of None \<Rightarrow> [] | Some ms \<Rightarrow> ms);
                  s' = s\<lparr>user_data := (user_data s)
                         (uid := (user_data s uid)
                            \<lparr>post_messages := Some (old @ [make_message_data (now_isoformat e) m])\<rparr>)\<rparr>
              in show_post_preview uid False s'))
      else s)"

section \<open>Channel registry: handle_forwarded_message\<close>

text \<open>The effective user of an update.\<close>

record tg_user =
  user_id :: int
  user_username :: "string option"
  user_first_name :: string

text \<open>
  \<open>str.capitalize\<close> on ASCII letters: first character upper case, the rest lower. The
  source applies it to \<open>chat.type\<close> only, after checking that this is \<open>channel\<close> or
  \<open>group\<close>.
\<close>

definition to_upper :: "char \<Rightarrow> char" where
  "to_upper c = (if 97 \<le> (of_char c :: nat) \<and> (of_char c :: nat) \<le> 122
                 then char_of ((of_char c :: nat) - 32) else c)"

definition to_lower :: "char \<Rightarrow> char" where
  "to_lower c = (if 65 \<le> (of_char c :: nat) \<and> (of_char c :: nat) \<le> 90
                 then char_of ((of_char c :: nat) + 32) else c)"

fun capitalize :: "string \<Rightarrow> string" where
  "capitalize [] = []"
| "capitalize (c # cs) = to_upper c # map to_lower cs"

definition lines_text :: "string list \<Rightarrow> string" where
  "lines_text ls = concat (map (\<lambda>l. l @ nl) ls)"

definition channel_added_text :: "env \<Rightarrow> chat \<Rightarrow> string" where
  "channel_added_text e c =
     nl @ lines_text [
       check_mark @ '' <b>Channel Added Successfully!</b>'',
       [],
       ''<b>Channel:</b> '' @ str_opt (chat_title c),
       ''<b>Username:</b> @'' @
         (if truthy (chat_username c) then str_opt (chat_username c) else ''Private''),
       ''<b>Type:</b> '' @ capitalize (chat_type c),
       [],
       ''Now you can:'',
       ''1. Go to @'' @ bot_username e @ '' to create posts'',
       ''2. Add more admins in channel settings'',
       ''3. Set up timezone for scheduling'',
       [],
       ''<code>/newpost</code> - Create your first post'',
       ''<code>/mychannels</code> - Manage your channels''] @
     replicate 12 CHR '' ''"

text \<open>The dictionary \<open>channel_data\<close> that a verified claim stores.\<close>

definition make_channel_data :: "env \<Rightarrow> int \<Rightarrow> chat \<Rightarrow> channel" where
  "make_channel_data e uid c =
     \<lparr>ch_id = chat_id c, ch_name = chat_title c, ch_username = chat_username c,
      ch_type = chat_type c, ch_admins = [uid], ch_owner_id = uid,
      ch_added_date = now_isoformat e, ch_bot_token = None, ch_timezone = ''UTC''\<rparr>"

definition handle_forwarded_message :: "env \<Rightarrow> tg_user \<Rightarrow> message \<Rightarrow> state \<Rightarrow> state" where
  "handle_forwarded_message e u m s =
     (if adding_channel (user_data s (user_id u)) \<noteq> Some True then s
      else
        (case msg_forward_from_chat m of
           None \<Rightarrow> s
         | Some c \<Rightarrow>
             if chat_type c \<noteq> ''channel'' \<and> chat_type c \<noteq> ''group'' then s
             else
               (case get_chat_member e (chat_id c) (user_id u) of
                  Inl err \<Rightarrow>
                    emit (Reply_text
                      ''Unable to verify your admin status. Please make sure the bot is added as admin.'') s
                | Inr status \<Rightarrow>
                    if status \<noteq> ''creator'' \<and> status \<noteq> ''administrator'' then
                      emit (Reply_text (''You aren'' @ [CHR 0x27] @ ''t an administrator in this channel.'')) s
                    else
                      s\<lparr>db := save_channel (chat_id c) (make_channel_data e (user_id u) c) (db s),
                        user_data := (user_data s)
                          (user_id u := (user_data s (user_id u))\<lparr>adding_channel := None\<rparr>),
                        trace := trace s @ [Db_save_channel (chat_id c),
                          Reply_text (channel_added_text e c)]\<rparr>)))"

section \<open>Scheduling: schedule_post\<close>

definition emoji_alarm :: string where
  "emoji_alarm = [CHR 0xE2, CHR 0x8F, CHR 0xB0]"

definition bullet :: string where
  "bullet = [CHR 0xE2, CHR 0x80, CHR 0xA2]"

definition schedule_prompt :: string where
  "schedule_prompt =
     emoji_alarm @ '' <b>Schedule Post</b>'' @ nl @ nl @
     ''Send the time when you want to send this post.'' @ nl @
     ''Format: <code>HH:MM</code> or <code>HH:MM DD.MM.YYYY</code>'' @ nl @ nl @
     ''Examples:'' @ nl @
     bullet @ '' <code>14:30</code> - Today at 2:30 PM'' @ nl @
     bullet @ '' <code>09:00 25.12.2023</code> - Dec 25, 2023 at 9:00 AM'' @ nl @ nl @
     ''Or choose one of the quick options below:''"

text \<open>
  \<open>schedule_post\<close> takes no time: it shows the prompt and sets the flag
  \<open>scheduling_post\<close>. (Its return value, the conversation state, is read by nobody:
  no \<open>ConversationHandler\<close> is installed.)
\<close>

definition schedule_post :: "int \<Rightarrow> state \<Rightarrow> state" where
  "schedule_post uid s =
     (emit (Edit_message_text schedule_prompt) s)
       \<lparr>user_data := (user_data s)(uid := (user_data s uid)\<lparr>scheduling_post := Some True\<rparr>)\<rparr>"

section \<open>Callbacks: handle_callback\<close>

definition LANG_start :: string where
  "LANG_start =
     nl @ lines_text [
       ''I can help you manage Telegram channels.'',
       [],
       ''You can control me by sending these commands:'',
       [],
       ''/newpost - create a new post'',
       ''/addchannel - add a new channel'',
       ''/mychannels - edit your channels'',
       ''/settings - other settings'']"

definition show_main_menu :: "state \<Rightarrow> state" where
  "show_main_menu s = emit (Edit_message_text LANG_start) s"

text \<open>\<open>data.startswith(p)\<close>, \<open>data.split('_')[-1]\<close> and \<open>data.split('_')[1]\<close>.\<close>

definition startswith :: "string \<Rightarrow> string \<Rightarrow> bool" where
  "startswith data p = (take (length p) data = p)"

definition split_last :: "string \<Rightarrow> string" where
  "split_last data = rev (takeWhile (\<lambda>c. c \<noteq> CHR ''_'') (rev data))"

definition split_second :: "string \<Rightarrow> string" where
  "split_second data =
     takeWhile (\<lambda>c. c \<noteq> CHR ''_'') (drop 1 (dropWhile (\<lambda>c. c \<noteq> CHR ''_'') data))"

text \<open>
  \<open>int(lit)\<close> on a field of the callback data. For a pure ASCII literal: the white
  space of C (space, tab, line feed, vertical tab, form feed, carriage return) is
  stripped at both ends, a sign may lead, then decimal digits must follow; anything else
  raises \<open>ValueError\<close> (\<open>None\<close>). The field has no underscore, being a piece of
  \<open>split('_')\<close>. For any other literal the interpreter first maps Unicode digits and
  spaces to ASCII: \<open>int_non_ascii\<close>. (Callback data has at most 64 bytes, far below the
  interpreter's limit on the number of digits.)
\<close>

definition is_space :: "char \<Rightarrow> bool" where
  "is_space c = (c \<in> set [CHR 0x20, CHR 0x09, CHR 0x0A, CHR 0x0B, CHR 0x0C, CHR 0x0D])"

definition strip :: "string \<Rightarrow> string" where
  "strip t = rev (dropWhile is_space (rev (dropWhile is_space t)))"

definition is_digit :: "char \<Rightarrow> bool" where
  "is_digit c = (48 \<le> (of_char c :: nat) \<and> (of_char c :: nat) \<le> 57)"

definition digits_value :: "string \<Rightarrow> int option" where
  "digits_value ds =
     (if ds \<noteq> [] \<and> list_all is_digit ds
      then Some (foldl (\<lambda>n c. 10 * n + int ((of_char c :: nat) - 48)) 0 ds)
      else None)"

definition ascii_int :: "string \<Rightarrow> int option" where
  "ascii_int lit =
     (case strip lit of
        [] \<Rightarrow> None
      | c # cs \<Rightarrow>
          if c = CHR ''-'' then map_option uminus (digits_value cs)
          else if c = CHR ''+'' then digits_value cs
          else digits_value (c # cs))"

definition py_int :: "env \<Rightarrow> string \<Rightarrow> int option" where
  "py_int e lit =
     (if list_all (\<lambda>c. (of_char c :: nat) < 128) lit then ascii_int lit
      else int_non_ascii e lit)"

definition creating_post_text :: "channel \<Rightarrow> string" where
  "creating_post_text ch =
     emoji_memo @ '' <b>Creating post for:</b> '' @ str_opt (ch_name ch) @ nl @ nl @
     ''Send me the content for your post. You can send:'' @ nl @
     bullet @ '' Text with formatting'' @ nl @
     bullet @ '' Photos with captions'' @ nl @
     bullet @ '' Videos with captions'' @ nl @
     bullet @ '' Documents'' @ nl @ nl @
     ''When finished, click '' @ [CHR 0x27] @ ''Preview'' @ [CHR 0x27] @ '' below.''"

definition empty_user_record :: user_record where
  "empty_user_record =
     \<lparr>usr_id = None, usr_username = None, usr_first_name = None, usr_language = None\<rparr>"

text \<open>
  \<open>handle_callback\<close>. The first component of the result is the \<open>ValueError\<close> that
  \<open>int(...)\<close> raises on a malformed channel id (its message is the literal); the
  state is the one reached when it was raised. Callback data that no branch matches
  (\<open>create_post\<close>, \<open>clear_post\<close>, \<open>schedule_today_0900\<close>, ...) is answered and nothing
  else.
\<close>

definition handle_callback :: "env \<Rightarrow> tg_user \<Rightarrow> string \<Rightarrow> state \<Rightarrow> string option \<times> state" where
  "handle_callback e u data s0 =
     (let uid = user_id u; s = emit (Query_answer None) s0 in
      if data = ''back_to_main'' then (None, show_main_menu s)
      else if startswith data ''select_channel_'' then
        (case py_int e (split_last data) of
           None \<Rightarrow> (Some (split_last data), s)
         | Some channel_id \<Rightarrow>
             (let s' = s\<lparr>user_data := (user_data s)
                         (uid := (user_data s uid)\<lparr>selected_channel := Some channel_id,
                            creating_post := Some True\<rparr>)\<rparr>
              in case get_channel (db s') (Some channel_id) of
                   None \<Rightarrow> (None, s')
                 | Some ch \<Rightarrow> (None, emit (Edit_message_text (creating_post_text ch)) s')))
      else if data = ''post_preview'' then (None, show_post_preview uid True s)
      else if data = ''send_post'' then (None, send_post_to_channel e uid s)
      else if data = ''schedule_post'' then (None, schedule_post uid s)
      else if startswith data ''lang_'' then
        (let lang = split_second data;
             rec = (case get_user (db s) uid of None \<Rightarrow> empty_user_record | Some r \<Rightarrow> r)
         in (None,
             s\<lparr>db := save_user uid (rec\<lparr>usr_language := Some lang\<rparr>) (db s),
               trace := trace s @ [Db_save_user uid,
                 Edit_message_text (''Language changed to '' @
                   (if lang = ''en'' then ''English'' else ''Russian'') @ ''.'')]\<rparr>))
      else (None, s))"

section \<open>Commands, the error handler and the dispatcher\<close>

definition start :: "tg_user \<Rightarrow> state \<Rightarrow> state" where
  "start u s =
     (let rec = (case get_user (db s) (user_id u) of None \<Rightarrow> empty_user_record | Some r \<Rightarrow> r);
          rec' = rec\<lparr>usr_id := Some (user_id u), usr_username := user_username u,
                   usr_first_name := Some (user_first_name u),
                   usr_language :=
                     Some (case usr_language rec of None \<Rightarrow> ''en'' | Some l \<Rightarrow> l)\<rparr>
      in s\<lparr>db := save_user (user_id u) rec' (db s),
           trace := trace s @ [Db_save_user (user_id u), Reply_text LANG_start]\<rparr>)"

definition emoji_cycle :: string where
  "emoji_cycle = [CHR 0xF0, CHR 0x9F, CHR 0x94, CHR 0x84]"

definition emoji_chart :: string where
  "emoji_chart = [CHR 0xF0, CHR 0x9F, CHR 0x93, CHR 0x8A]"

definition emoji_money :: string where
  "emoji_money = [CHR 0xF0, CHR 0x9F, CHR 0x92, CHR 0xB0]"

definition emoji_gear :: string where
  "emoji_gear = [CHR 0xE2, CHR 0x9A, CHR 0x99, CHR 0xEF, CHR 0xB8, CHR 0x8F]"

definition emoji_speech :: string where
  "emoji_speech = [CHR 0xF0, CHR 0x9F, CHR 0x92, CHR 0xAC]"

definition cross_mark :: string where
  "cross_mark = [CHR 0xE2, CHR 0x9D, CHR 0x8C]"

definition help_text :: string where
  "help_text =
     nl @ lines_text [
       ''<b>Controller Bot Help</b>'',
       [],
       ''I can help you manage Telegram channels with these features:'',
       [],
       emoji_memo @ '' <b>Create Posts</b> - Create formatted posts with markdown/HTML'',
       emoji_cycle @ '' <b>Edit Posts</b> - Edit existing posts in your channels'',
       emoji_alarm @ '' <b>Schedule Posts</b> - Schedule posts for later delivery'',
       emoji_chart @ '' <b>View Statistics</b> - Get channel analytics'',
       emoji_money @ '' <b>Paid Subscriptions</b> - Manage paid channel subscriptions'',
       emoji_gear @ '' <b>Channel Management</b> - Add/remove channels and bots'',
       [],
       ''<b>Available Commands:</b>'',
       ''/start - Main menu'',
       ''/newpost - Create new post'',
       ''/addchannel - Add new channel'',
       ''/mychannels - Manage your channels'',
       ''/settings - Bot settings'',
       ''/lang - Change language'',
       [],
       ''For detailed help, visit our <a href='' @ [CHR 0x22] @
         ''https://telegra.ph/Controller-Help-03-20'' @ [CHR 0x22] @ ''>Help Page</a>''] @
     replicate 8 CHR '' ''"

definition help_command :: "state \<Rightarrow> state" where
  "help_command s = emit (Reply_text help_text) s"

text \<open>
  \<open>new_post\<close>. While it builds the keyboard, \<open>channel_name += ...\<close> raises
  \<open>TypeError\<close> for a channel whose name is \<open>None\<close> and whose username is truthy;
  nothing has been sent by then. The first component of the result is the message of
  that exception.
\<close>

definition none_plus_str :: string where
  "none_plus_str = ''unsupported operand type(s) for +=: '' @ [CHR 0x27] @ ''NoneType'' @
     [CHR 0x27] @ '' and '' @ [CHR 0x27] @ ''str'' @ [CHR 0x27]"

definition new_post :: "tg_user \<Rightarrow> state \<Rightarrow> string option \<times> state" where
  "new_post u s =
     (let user_channels = get_user_channels (db s) (user_id u) in
      if user_channels = [] then
        (None, emit (Reply_text (''There is no added channels yet.'' @ nl @ nl @
          ''Send /addchannel to add a new one.'')) s)
      else if list_ex (\<lambda>c. ch_name c = None \<and> truthy (ch_username c)) user_channels then
        (Some none_plus_str, s)
      else (None, emit (Reply_text ''Choose a channel to create a new post:'') s))"

definition LANG_channels_add :: string where
  "LANG_channels_add =
     nl @ lines_text [
       ''<b>Adding a channel</b>'',
       [],
       ''To add a channel you should follow these two steps:'',
       [],
       ''1. Add the bot to admins of your channel.'',
       ''2. Then forward to me any message from your channel (you can also send me its username or ID).'']"

text \<open>\<open>add_channel\<close> shows the instructions; it writes nothing to \<open>user_data\<close>.\<close>

definition add_channel :: "state \<Rightarrow> state" where
  "add_channel s = emit (Reply_text LANG_channels_add) s"

definition my_channels :: "tg_user \<Rightarrow> state \<Rightarrow> state" where
  "my_channels u s =
     (let user_channels = get_user_channels (db s) (user_id u) in
      if user_channels = [] then
        emit (Reply_text (''You don'' @ [CHR 0x27] @
          ''t have any channels yet. Use /addchannel to add one.'')) s
      else
        emit (Reply_text (emoji_clipboard @ '' <b>Your Channels</b>'' @ nl @ nl @
          ''You have '' @ str_nat (length user_channels) @
          '' channel(s). Select one to manage:'')) s)"

definition settings :: "state \<Rightarrow> state" where
  "settings s =
     emit (Reply_text (emoji_gear @ '' <b>Settings</b>'' @ nl @ nl @
       ''Choose what you want to change:'')) s"

definition change_language :: "state \<Rightarrow> state" where
  "change_language s = emit (Reply_text ''Please choose your language:'') s"

text \<open>
  \<open>error_handler\<close>: the log line and the notice to the user. \<open>upd\<close> is the library's
  rendering of the update, \<open>err\<close> the rendering of the exception.
\<close>

definition error_handler :: "string \<Rightarrow> string \<Rightarrow> state \<Rightarrow> state" where
  "error_handler upd err s =
     emit (Reply_text (cross_mark @ '' An error occurred. Please try again.'' @ nl @ nl @
       ''If the problem persists, contact @ControllerSupportBot''))
       (emit (Logger_error (''Update '' @ upd @ '' caused error '' @ err)) s)"

text \<open>\<open>ReplyManager.handle_reply\<close>; no handler calls it.\<close>

definition handle_reply :: "tg_user \<Rightarrow> int \<Rightarrow> int \<Rightarrow> state \<Rightarrow> state" where
  "handle_reply u channel_id message_id s =
     (emit (Edit_message_text (emoji_speech @ '' <b>Reply to Post</b>'' @ nl @ nl @
        ''Send your reply message. It will be posted as a comment/reply in the channel.'' @
        nl @ nl @ ''You can send text, photos, videos, or any other media.''))
        (s\<lparr>user_data := (user_data s)
           (user_id u := (user_data s (user_id u))
              \<lparr>replying_to := Some (channel_id, message_id, user_id u)\<rparr>)\<rparr>))"

text \<open>
  The filters of \<open>setup_handlers\<close>: \<open>Filters.forwarded\<close> (the message has a forward
  date), \<open>Filters.text\<close> (its text is truthy) and \<open>Filters.command\<close> (its first entity
  is a bot command at offset 0).
\<close>

definition filter_forwarded :: "message \<Rightarrow> bool" where
  "filter_forwarded m = (msg_forward_date m \<noteq> None)"

definition filter_text :: "message \<Rightarrow> bool" where
  "filter_text m = truthy (msg_text m)"

definition filter_command :: "message \<Rightarrow> bool" where
  "filter_command m =
     (case msg_entities m of
        [] \<Rightarrow> False
      | ent # _ \<Rightarrow> fst ent = ''bot_command'' \<and> fst (snd ent) = 0)"

text \<open>
  A message that the dispatcher hands to \<open>handle_text_message\<close>: not forwarded, with
  text, no command.
\<close>

definition plain_text_message :: "message \<Rightarrow> bool" where
  "plain_text_message m = (\<not> filter_forwarded m \<and> filter_text m \<and> \<not> filter_command m)"

text \<open>
  The updates as \<open>setup_handlers\<close> routes them. The seven commands stand for a message
  that the \<open>CommandHandler\<close> of that command accepts. \<open>Message\<close> is any other
  incoming message: the handlers are tried in the order of their registration, so a
  forwarded message goes to \<open>handle_forwarded_message\<close>, a message with text that is no
  command goes to \<open>handle_text_message\<close>, and any other message (a photo, a video or a
  document: they carry a caption, not a text) reaches no handler. \<open>Callback\<close> is a
  callback query. An exception that leaves a handler reaches \<open>error_handler\<close>.
  \<open>Reply\<close> stands for a call of \<open>ReplyManager.handle_reply\<close>, which the source defines
  and never routes to; it is listed so that statements about every operation cover it.
  (\<open>ReplyManager.send_reply\<close> reads the channel and calls the transport; it writes
  neither the store nor \<open>user_data\<close>, no handler calls it, and it is not modelled.
  Updates of other kinds, such as edited messages and channel posts, are not modelled.)
\<close>

datatype update =
    Cmd_start
  | Cmd_help
  | Cmd_newpost
  | Cmd_addchannel
  | Cmd_mychannels
  | Cmd_settings
  | Cmd_lang
  | Message message
  | Callback string
  | Reply int int

text \<open>The message of the \<open>ValueError\<close> that \<open>int(lit)\<close> raises.\<close>

definition value_error_text :: "env \<Rightarrow> string \<Rightarrow> string" where
  "value_error_text e lit = ''invalid literal for int() with base 10: '' @ py_repr e lit"

fun dispatch :: "env \<Rightarrow> string \<Rightarrow> tg_user \<Rightarrow> update \<Rightarrow> state \<Rightarrow> state" where
  "dispatch e upd u Cmd_start s = start u s"
| "dispatch e upd u Cmd_help s = help_command s"
| "dispatch e upd u Cmd_newpost s =
     (case new_post u s of
        (None, s') \<Rightarrow> s'
      | (Some err, s') \<Rightarrow> error_handler upd err s')"
| "dispatch e upd u Cmd_addchannel s = add_channel s"
| "dispatch e upd u Cmd_mychannels s = my_channels u s"
| "dispatch e upd u Cmd_settings s = settings s"
| "dispatch e upd u Cmd_lang s = change_language s"
| "dispatch e upd u (Message m) s =
     (if filter_forwarded m then handle_forwarded_message e u m s
      else if filter_text m \<and> \<not> filter_command m then
        handle_text_message e (user_id u) m s
      else s)"
| "dispatch e upd u (Callback data) s =
     (case handle_callback e u data s of
        (None, s') \<Rightarrow> s'
      | (Some lit, s') \<Rightarrow> error_handler upd (value_error_text e lit) s')"
| "dispatch e upd u (Reply channel_id message_id) s = handle_reply u channel_id message_id s"

text \<open>
  A run of the program: updates handled one after the other, each with the world
  (transport, clock) of its moment, from the state at boot: an empty \<open>Database()\<close>,
  no \<open>user_data\<close>.
\<close>

definition initial_state :: state where
  "initial_state = \<lparr>db = empty_database, user_data = (\<lambda>_. empty_session), trace = []\<rparr>"

fun run :: "(env \<times> string \<times> tg_user \<times> update) list \<Rightarrow> state \<Rightarrow> state" where
  "run [] s = s"
| "run ((e, upd, u, x) # rest) s = run rest (dispatch e upd u x s)"

section \<open>Reading a trace\<close>

text \<open>
  The transport calls a trace holds, in order (\<open>attempts\<close>), and the message ids of
  those that succeeded (\<open>delivered_ids\<close>). \<open>calls channel_id msgs\<close> is the list of
  calls the loop body makes for a block list when no call fails.
\<close>

fun sent_call :: "event \<Rightarrow> send_call option" where
  "sent_call (Channel_send c r) = Some c"
| "sent_call _ = None"

fun sent_id :: "event \<Rightarrow> int option" where
  "sent_id (Channel_send c (Inr mid)) = Some mid"
| "sent_id _ = None"

definition attempts :: "event list \<Rightarrow> send_call list" where
  "attempts evs = List.map_filter sent_call evs"

definition delivered_ids :: "event list \<Rightarrow> int list" where
  "delivered_ids evs = List.map_filter sent_id evs"

definition calls :: "int \<Rightarrow> message_data list \<Rightarrow> send_call list" where
  "calls channel_id msgs = List.map_filter (block_call channel_id) msgs"

definition sent_ok :: "send_call \<times> int \<Rightarrow> event" where
  "sent_ok ci = Channel_send (fst ci) (Inr (snd ci))"

text \<open>The events a handler added to the trace it started from.\<close>

definition new_events :: "state \<Rightarrow> state \<Rightarrow> event list" where
  "new_events s s' = drop (length (trace s)) (trace s')"

text \<open>The record \<open>post_data\<close> that a completed delivery stores.\<close>

definition stored_post :: "env \<Rightarrow> int \<Rightarrow> int \<Rightarrow> message_data list \<Rightarrow> int list \<Rightarrow> post_data" where
  "stored_post e uid cid msgs ids =
     \<lparr>post_id = str_int cid @ ''_'' @ now_timestamp e, post_channel_id = cid,
      post_user_id = uid, post_messages_sent = msgs, post_sent_messages = ids,
      post_sent_date = now_isoformat e, post_type = ''instant''\<rparr>"

section \<open>Concrete inputs\<close>

text \<open>
  Inputs for the handlers, used where a statement is evaluated. The states below are
  given to a handler directly: no handler of the source binds a \<open>bot_token\<close> or sets
  \<open>adding_channel\<close>, so a run from boot does not reach them.

  A world in which every transport call succeeds (the message id counts the events
  before it), and one in which the call made when the trace holds exactly one event
  times out.
\<close>

definition ex_env :: env where
  "ex_env = \<lparr>get_chat_member = (\<lambda>c u. Inr ''administrator''),
     bot_init = (\<lambda>t. None),
     channel_send = (\<lambda>tr c. Inr (100 + int (length tr))),
     now_isoformat = ''2024-01-01T12:00:00'',
     now_timestamp = ''1704110400.0'',
     now_strftime = ''2024-01-01 12:00:00'',
     bot_username = ''ControllerBot'',
     int_non_ascii = (\<lambda>lit. None),
     py_repr = (\<lambda>lit. [CHR 0x27] @ lit @ [CHR 0x27])\<rparr>"

definition ex_flaky_env :: env where
  "ex_flaky_env = ex_env\<lparr>channel_send :=
     (\<lambda>tr c. if length tr = 1 then Inl ''Timed out'' else Inr (100 + int (length tr)))\<rparr>"

definition ex_text_message :: "int \<Rightarrow> string \<Rightarrow> message" where
  "ex_text_message i t =
     \<lparr>msg_message_id = i, msg_text = Some t, msg_text_html = Some t,
      msg_text_markdown = Some t,
      msg_entities = [], msg_photo = [], msg_video = None, msg_document = None,
      msg_caption = None, msg_caption_html = None, msg_caption_entities = [],
      msg_forward_date = None, msg_forward_from_chat = None\<rparr>"

definition ex_document_message :: message where
  "ex_document_message =
     \<lparr>msg_message_id = 11, msg_text = None, msg_text_html = None,
      msg_text_markdown = None,
      msg_entities = [], msg_photo = [], msg_video = None,
      msg_document = Some ''doc-file-1'',
      msg_caption = Some ''Report'', msg_caption_html = Some ''Report'',
      msg_caption_entities = [], msg_forward_date = None, msg_forward_from_chat = None\<rparr>"

definition ex_text_block :: "int \<Rightarrow> string \<Rightarrow> message_data" where
  "ex_text_block i t = make_message_data ''2024-01-01T11:00:00'' (ex_text_message i t)"

definition ex_document_block :: message_data where
  "ex_document_block = make_message_data ''2024-01-01T11:00:00'' ex_document_message"

definition ex_channel :: "int \<Rightarrow> string option \<Rightarrow> channel" where
  "ex_channel owner tok =
     \<lparr>ch_id = - 1001, ch_name = Some ''News'', ch_username = Some ''news'',
      ch_type = ''channel'', ch_admins = [owner], ch_owner_id = owner,
      ch_added_date = ''2024-01-01T00:00:00'', ch_bot_token = tok, ch_timezone = ''UTC''\<rparr>"

text \<open>
  User 7 composing for channel \<open>-1001\<close>, whose bound credential is \<open>tok\<close>, with the
  blocks \<open>msgs\<close> appended so far.
\<close>

definition ex_state :: "string option \<Rightarrow> message_data list \<Rightarrow> state" where
  "ex_state tok msgs =
     \<lparr>db = empty_database\<lparr>channels := [(- 1001, ex_channel 7 tok)]\<rparr>,
      user_data = (\<lambda>_. empty_session)
        (7 := empty_session\<lparr>creating_post := Some True, selected_channel := Some (- 1001),
           post_messages := Some msgs\<rparr>),
      trace = []\<rparr>"

definition ex_user :: "int \<Rightarrow> tg_user" where
  "ex_user i = \<lparr>user_id = i, user_username = None, user_first_name = ''U''\<rparr>"

definition ex_chat :: chat where
  "ex_chat = \<lparr>chat_id = - 1001, chat_title = Some ''News'', chat_username = Some ''news'',
     chat_type = ''channel''\<rparr>"

definition ex_forwarded_message :: message where
  "ex_forwarded_message = (ex_text_message 20 ''from the channel'')
     \<lparr>msg_forward_date := Some 1704100000, msg_forward_from_chat := Some ex_chat\<rparr>"

text \<open>A state in which users 1 and 2 both hold the flag \<open>adding_channel\<close>.\<close>

definition ex_claiming_state :: state where
  "ex_claiming_state =
     \<lparr>db = empty_database,
      user_data = (\<lambda>_. empty_session)
        (1 := empty_session\<lparr>adding_channel := Some True\<rparr>,
         2 := empty_session\<lparr>adding_channel := Some True\<rparr>),
      trace = []\<rparr>"

text \<open>
  The spec's rule for the delivered-id list, read on a trace: each successful transport
  call is followed at once by a write of the post to the store.
\<close>

fun persisted_after_each_send :: "event list \<Rightarrow> bool" where
  "persisted_after_each_send [] = True"
| "persisted_after_each_send (Channel_send c (Inr mid) # rest) =
     (case rest of
        Db_put_post pid # rest' \<Rightarrow> persisted_after_each_send rest'
      | _ \<Rightarrow> False)"
| "persisted_after_each_send (ev # rest) = persisted_after_each_send rest"

text \<open>User 7 with three text blocks, and with two.\<close>

definition ex_three_state :: state where
  "ex_three_state = ex_state (Some ''123456:token'')
     [ex_text_block 1 ''one'', ex_text_block 2 ''two'', ex_text_block 3 ''three'']"

definition ex_two_state :: state where
  "ex_two_state = ex_state (Some ''123456:token'')
     [ex_text_block 1 ''one'', ex_text_block 2 ''two'']"

section \<open>Reading a session and a preview\<close>

text \<open>What \<open>context.user_data.get('post_messages', [])\<close> gives for a user.\<close>

definition session_blocks :: "state \<Rightarrow> int \<Rightarrow> message_data list" where
  "session_blocks s uid = (case post_messages (user_data s uid) of None \<Rightarrow> [] | Some ms \<Rightarrow> ms)"

text \<open>
  Messages of one user arriving one after the other, each with the world of its moment,
  as the dispatcher handles them.
\<close>

definition feed :: "tg_user \<Rightarrow> (env \<times> message) list \<Rightarrow> state \<Rightarrow> state" where
  "feed u ems s = run (map (\<lambda>em. (fst em, [], u, Message (snd em))) ems) s"

text \<open>
  The preview as the spec describes it, written without the loop of the source. A block
  is of the first kind among text, photo, video and document whose key is truthy. An item
  is the number of the block, then the sign of its kind and, for text, the text cut to
  its first 100 characters (followed by three dots when it was longer), for media the
  words of the kind; a block of no kind has no item. The items are those of the first
  \<open>min N 3\<close> blocks, the k-th block numbered k; the remainder is reported as a count.
\<close>

datatype block_kind = Text_kind string | Photo_kind | Video_kind | Document_kind | No_kind

definition kind_of :: "message_data \<Rightarrow> block_kind" where
  "kind_of b =
     (case nonempty (md_text b) of
        Some t \<Rightarrow> Text_kind t
      | None \<Rightarrow>
          if nonempty (md_photo b) \<noteq> None then Photo_kind
          else if nonempty (md_video b) \<noteq> None then Video_kind
          else if nonempty (md_document b) \<noteq> None then Document_kind
          else No_kind)"

fun kind_label :: "block_kind \<Rightarrow> string option" where
  "kind_label (Text_kind t) =
     Some (emoji_memo @ '' '' @ (if py_len t \<le> 100 then t else py_take 100 t @ ''...''))"
| "kind_label Photo_kind = Some (emoji_camera @ '' Photo with caption'')"
| "kind_label Video_kind = Some (emoji_movie @ '' Video with caption'')"
| "kind_label Document_kind = Some (emoji_page @ '' Document with caption'')"
| "kind_label No_kind = None"

definition preview_item :: "nat \<Rightarrow> message_data \<Rightarrow> string" where
  "preview_item i b =
     (case kind_label (kind_of b) of
        None \<Rightarrow> []
      | Some label \<Rightarrow> str_nat i @ ''. '' @ label @ nl)"

definition preview_items :: "message_data list \<Rightarrow> string list" where
  "preview_items msgs =
     map (\<lambda>k. preview_item (Suc k) (msgs ! k)) [0..<min (length msgs) 3]"

definition preview_remainder :: "nat \<Rightarrow> string" where
  "preview_remainder n =
     (if n > 3 then nl @ ''... and '' @ str_nat (n - 3) @ '' more messages'' else [])"

text \<open>The channel whose name the preview shows.\<close>

definition preview_channel :: "state \<Rightarrow> int \<Rightarrow> channel option" where
  "preview_channel s uid =
     (if selected_channel (user_data s uid) \<noteq> None \<and> selected_channel (user_data s uid) \<noteq> Some 0
      then get_channel (db s) (selected_channel (user_data s uid)) else None)"

section \<open>The delivery loop\<close>

lemma calls_Nil: "calls cid [] = []"
  by (simp add: calls_def)

lemma calls_Cons:
  "calls cid (m # ms) =
     (case block_call cid m of None \<Rightarrow> calls cid ms | Some c \<Rightarrow> c # calls cid ms)"
  by (simp add: calls_def map_filter_simps split: option.splits)

lemma send_loop_Inr:
  "send_loop e cid msgs acc tr = (tr', Inr sent) \<Longrightarrow>
     \<exists>ids. length ids = length (calls cid msgs) \<and> sent = acc @ ids \<and>
       tr' = tr @ map sent_ok (zip (calls cid msgs) ids)"
proof (induction msgs arbitrary: acc tr)
  case Nil
  then show ?case by (simp add: calls_Nil)
next
  case (Cons m ms)
  show ?case
  proof (cases "block_call cid m")
    case None
    with Cons.prems have "send_loop e cid ms acc tr = (tr', Inr sent)" by simp
    from Cons.IH[OF this] None show ?thesis by (simp add: calls_Cons)
  next
    case (Some c)
    show ?thesis
    proof (cases "channel_send e tr c")
      case (Inl err)
      with Some Cons.prems show ?thesis by simp
    next
      case (Inr mid)
      with Some Cons.prems
      have "send_loop e cid ms (acc @ [mid]) (tr @ [Channel_send c (Inr mid)]) = (tr', Inr sent)"
        by simp
      from Cons.IH[OF this] obtain ids where
        ids: "length ids = length (calls cid ms)" "sent = (acc @ [mid]) @ ids"
          "tr' = (tr @ [Channel_send c (Inr mid)]) @ map sent_ok (zip (calls cid ms) ids)"
        by blast
      show ?thesis
        apply (rule exI[of _ "mid # ids"])
        using ids Some by (simp add: calls_Cons sent_ok_def)
    qed
  qed
qed

lemma send_loop_Inl:
  "send_loop e cid msgs acc tr = (tr', Inl err) \<Longrightarrow>
     \<exists>ids c. length ids < length (calls cid msgs) \<and> 
       c = calls cid msgs ! length ids \<and>
       tr' = tr @ map sent_ok (zip (calls cid msgs) ids) @ [Channel_send c (Inl err)]"
proof (induction msgs arbitrary: acc tr)
  case Nil
  then show ?case by simp
next
  case (Cons m ms)
  show ?case
  proof (cases "block_call cid m")
    case None
    with Cons.prems have "send_loop e cid ms acc tr = (tr', Inl err)" by simp
    from Cons.IH[OF this] None show ?thesis by (simp add: calls_Cons)
  next
    case (Some c)
    show ?thesis
    proof (cases "channel_send e tr c")
      case (Inl err')
      with Some Cons.prems have "tr' = tr @ [Channel_send c (Inl err)]" by auto
      then show ?thesis
        apply (intro exI[of _ "[]"] exI[of _ c])
        using Some by (simp add: calls_Cons)
    next
      case (Inr mid)
      with Some Cons.prems
      have "send_loop e cid ms (acc @ [mid]) (tr @ [Channel_send c (Inr mid)]) = (tr', Inl err)"
        by simp
      from Cons.IH[OF this] obtain ids c' where
        ids: "length ids < length (calls cid ms)" "c' = calls cid ms ! length ids"
          "tr' = (tr @ [Channel_send c (Inr mid)]) @ map sent_ok (zip (calls cid ms) ids) @ [Channel_send c' (Inl err)]"
        by blast
      show ?thesis
        apply (intro exI[of _ "mid # ids"] exI[of _ c'])
        using ids Some by (simp add: calls_Cons sent_ok_def)
    qed
  qed
qed


lemma deliver_cases:
  obtains
    (early) notice where
      "send_post_to_channel e uid s = emit (Query_answer (Some notice)) s"
  | (init_error) err where
      "send_post_to_channel e uid s = telegram_error err s"
  | (send_error) cid msgs ids err where
      "selected_channel (user_data s uid) = Some cid"
      "post_messages (user_data s uid) = Some msgs"
      "length ids < length (calls cid msgs)"
      "send_post_to_channel e uid s =
         telegram_error err (s\<lparr>trace := trace s @ map sent_ok (zip (calls cid msgs) ids) @
           [Channel_send (calls cid msgs ! length ids) (Inl err)]\<rparr>)"
  | (success) cid ch msgs ids where
      "selected_channel (user_data s uid) = Some cid"
      "get_channel (db s) (Some cid) = Some ch"
      "post_messages (user_data s uid) = Some msgs"
      "length ids = length (calls cid msgs)"
      "send_post_to_channel e uid s =
         s\<lparr>db := (db s)\<lparr>posts := (posts (db s))
               (str_int cid @ ''_'' @ now_timestamp e \<mapsto> stored_post e uid cid msgs ids)\<rparr>,
           user_data := (user_data s)
             (uid := (user_data s uid)\<lparr>post_messages := None, selected_channel := None,
                creating_post := None\<rparr>),
           trace := trace s @ map sent_ok (zip (calls cid msgs) ids) @
             [Db_put_post (str_int cid @ ''_'' @ now_timestamp e),
              Edit_message_text (success_text ch ids (now_strftime e))]\<rparr>"
proof (cases "selected_channel (user_data s uid)")
  case None
  then have "send_post_to_channel e uid s = emit (Query_answer (Some ''Channel not found.'')) s"
    by (simp add: send_post_to_channel_def)
  then show ?thesis by (rule early)
next
  case (Some cid)
  note cid = this
  show ?thesis
  proof (cases "get_channel (db s) (Some cid)")
    case None
    with cid have "send_post_to_channel e uid s = emit (Query_answer (Some ''Channel not found.'')) s"
      by (simp add: send_post_to_channel_def)
    then show ?thesis by (rule early)
  next
    case (Some ch)
    note ch = this
    define msgs where "msgs = (case post_messages (user_data s uid) of None \<Rightarrow> [] | Some ms \<Rightarrow> ms)"
    show ?thesis
    proof (cases "msgs = []")
      case True
      with cid ch have "send_post_to_channel e uid s = emit (Query_answer (Some ''No content to send.'')) s"
        by (simp add: send_post_to_channel_def msgs_def)
      then show ?thesis by (rule early)
    next
      case False
      then have pm: "post_messages (user_data s uid) = Some msgs"
        by (auto simp: msgs_def split: option.splits)
      show ?thesis
      proof (cases "nonempty (ch_bot_token ch)")
        case None
        with cid ch False pm have "send_post_to_channel e uid s =
            emit (Query_answer (Some ''No bot connected to this channel. Please add a bot first.'')) s"
          by (simp add: send_post_to_channel_def)
        then show ?thesis by (rule early)
      next
        case (Some tok)
        note tok = this
        show ?thesis
        proof (cases "bot_init e tok")
          case (Some err)
          with cid ch False pm tok have "send_post_to_channel e uid s = telegram_error err s"
            by (simp add: send_post_to_channel_def)
          then show ?thesis by (rule init_error)
        next
          case None
          note init = this
          obtain tr' res where loop: "send_loop e cid msgs [] (trace s) = (tr', res)"
            by (cases "send_loop e cid msgs [] (trace s)") auto
          show ?thesis
          proof (cases res)
            case (Inl err)
            from send_loop_Inl[OF loop[unfolded Inl]] obtain ids where
              ids: "length ids < length (calls cid msgs)"
                "tr' = trace s @ map sent_ok (zip (calls cid msgs) ids) @
                   [Channel_send (calls cid msgs ! length ids) (Inl err)]"
              by blast
            from cid ch False pm tok init loop Inl
            have "send_post_to_channel e uid s = telegram_error err (s\<lparr>trace := tr'\<rparr>)"
              by (simp add: send_post_to_channel_def)
            with ids show ?thesis using send_error[OF cid pm ids(1)] by simp
          next
            case (Inr sent)
            from send_loop_Inr[OF loop[unfolded Inr]] obtain ids where
              ids: "length ids = length (calls cid msgs)" "sent = ids"
                "tr' = trace s @ map sent_ok (zip (calls cid msgs) ids)"
              by auto
            from cid ch False pm tok init loop Inr ids
            show ?thesis
              by (intro success[OF cid ch pm ids(1)])
                (simp add: send_post_to_channel_def stored_post_def Let_def)
          qed
        qed
      qed
    qed
  qed
qed

section \<open>Facts about traces and delivery\<close>

lemma emit_simps:
  "db (emit ev s) = db s" "user_data (emit ev s) = user_data s"
  "trace (emit ev s) = trace s @ [ev]"
  by (simp_all add: emit_def)

lemma telegram_error_simps:
  "db (telegram_error err s) = db s" "user_data (telegram_error err s) = user_data s"
  "trace (telegram_error err s) =
     trace s @ [Logger_error (''Error sending post: '' @ err),
                Query_answer (Some (''Error sending post: '' @ err))]"
  by (simp_all add: telegram_error_def emit_def)

lemma sent_ok_not_Inl: "Channel_send c (Inl err) \<notin> set (map sent_ok xs)"
  by (auto simp: sent_ok_def)

lemma sent_ok_not_put: "Db_put_post pid \<notin> set (map sent_ok xs)"
  by (auto simp: sent_ok_def)

lemma attempts_append: "attempts (xs @ ys) = attempts xs @ attempts ys"
  by (simp add: attempts_def map_filter_def)

lemma delivered_ids_append: "delivered_ids (xs @ ys) = delivered_ids xs @ delivered_ids ys"
  by (simp add: delivered_ids_def map_filter_def)

lemma attempts_Nil: "attempts [] = []"
  by (simp add: attempts_def)

lemma attempts_Cons:
  "attempts (ev # evs) = (case sent_call ev of None \<Rightarrow> attempts evs | Some c \<Rightarrow> c # attempts evs)"
  by (simp add: attempts_def split: option.splits)

lemma delivered_ids_Nil: "delivered_ids [] = []"
  by (simp add: delivered_ids_def)

lemma delivered_ids_Cons:
  "delivered_ids (ev # evs) =
     (case sent_id ev of None \<Rightarrow> delivered_ids evs | Some i \<Rightarrow> i # delivered_ids evs)"
  by (simp add: delivered_ids_def split: option.splits)

lemmas trace_reading = attempts_Nil attempts_Cons delivered_ids_Nil delivered_ids_Cons

lemma attempts_sent_ok: "attempts (map sent_ok xs) = map fst xs"
  by (induction xs) (simp_all add: trace_reading sent_ok_def)

lemma delivered_ids_sent_ok: "delivered_ids (map sent_ok xs) = map snd xs"
  by (induction xs) (simp_all add: trace_reading sent_ok_def)

lemma map_fst_zip_le: "length ys \<le> length xs \<Longrightarrow> map fst (zip xs ys) = take (length ys) xs"
  by (simp add: map_fst_zip_take min_def)

lemma map_snd_zip_le: "length ys \<le> length xs \<Longrightarrow> map snd (zip xs ys) = ys"
  by (simp add: map_snd_zip_take min_def)

lemma deliver_attempts:
  assumes "selected_channel (user_data s uid) = Some cid"
    and "post_messages (user_data s uid) = Some msgs"
  shows "\<exists>k. attempts (new_events s (send_post_to_channel e uid s)) = take k (calls cid msgs)"
proof (cases rule: deliver_cases[of e uid s])
  case (early notice)
  then have "attempts (new_events s (send_post_to_channel e uid s)) = take 0 (calls cid msgs)"
    by (simp add: new_events_def emit_simps trace_reading)
  then show ?thesis by blast
next
  case (init_error err)
  then have "attempts (new_events s (send_post_to_channel e uid s)) = take 0 (calls cid msgs)"
    by (simp add: new_events_def telegram_error_simps trace_reading)
  then show ?thesis by blast
next
  case (send_error cid' msgs' ids err)
  with assms have eq: "cid' = cid" "msgs' = msgs" by simp_all
  from send_error(3) eq
  have "attempts (new_events s (send_post_to_channel e uid s)) =
      take (Suc (length ids)) (calls cid msgs)"
    unfolding send_error(4) new_events_def
    by (simp add: telegram_error_simps attempts_append attempts_sent_ok map_fst_zip_le
        take_Suc_conv_app_nth trace_reading)
  then show ?thesis by blast
next
  case (success cid' ch msgs' ids)
  with assms have eq: "cid' = cid" "msgs' = msgs" by simp_all
  from success(4) eq
  have "attempts (new_events s (send_post_to_channel e uid s)) =
      take (length (calls cid msgs)) (calls cid msgs)"
    unfolding success(5) new_events_def
    by (simp add: attempts_append attempts_sent_ok map_fst_zip_le trace_reading)
  then show ?thesis by blast
qed

lemma takeWhile_sends:
  "takeWhile (\<lambda>ev. ev \<noteq> Db_put_post pid) (map sent_ok xs @ Db_put_post pid # rest) =
     map sent_ok xs"
  by (induction xs) (simp_all add: sent_ok_def)

lemma put_post_shape:
  assumes "Db_put_post pid \<in> set (new_events s (send_post_to_channel e uid s))"
  obtains cid ch msgs ids where
    "selected_channel (user_data s uid) = Some cid"
    "post_messages (user_data s uid) = Some msgs"
    "length ids = length (calls cid msgs)"
    "new_events s (send_post_to_channel e uid s) =
       map sent_ok (zip (calls cid msgs) ids) @
       [Db_put_post pid, Edit_message_text (success_text ch ids (now_strftime e))]"
    "posts (db (send_post_to_channel e uid s)) pid = Some (stored_post e uid cid msgs ids)"
proof (cases rule: deliver_cases[of e uid s])
  case (early notice)
  with assms show ?thesis by (simp add: new_events_def emit_simps)
next
  case (init_error err)
  with assms show ?thesis by (simp add: new_events_def telegram_error_simps)
next
  case (send_error cid msgs ids err)
  from assms show ?thesis
    unfolding send_error(4) new_events_def
    using sent_ok_not_put[of pid "zip (calls cid msgs) ids"]
    by (simp add: telegram_error_simps)
next
  case (success cid ch msgs ids)
  let ?pid = "str_int cid @ ''_'' @ now_timestamp e"
  have evs: "new_events s (send_post_to_channel e uid s) =
      map sent_ok (zip (calls cid msgs) ids) @
      [Db_put_post ?pid, Edit_message_text (success_text ch ids (now_strftime e))]"
    unfolding success(5) new_events_def by simp
  with assms sent_ok_not_put[of pid "zip (calls cid msgs) ids"] have pid: "pid = ?pid"
    by auto
  have stored: "posts (db (send_post_to_channel e uid s)) pid =
      Some (stored_post e uid cid msgs ids)"
    unfolding success(5) pid by simp
  from that[OF success(1,3,4) evs[folded pid] stored] show ?thesis .
qed

section \<open>What each handler leaves alone\<close>

lemma show_post_preview_simps:
  "db (show_post_preview uid cb s) = db s"
  "user_data (show_post_preview uid cb s) = user_data s"
  by (simp_all add: show_post_preview_def Let_def emit_simps)

lemma deliver_frame:
  "scheduled_posts (db (send_post_to_channel e uid s)) = scheduled_posts (db s)"
  "channels (db (send_post_to_channel e uid s)) = channels (db s)"
  "adding_channel (user_data (send_post_to_channel e uid s) v) = adding_channel (user_data s v)"
  by (cases rule: deliver_cases[of e uid s]; simp add: emit_simps telegram_error_simps)+

lemma text_frame:
  "scheduled_posts (db (handle_text_message e uid m s)) = scheduled_posts (db s)"
  "channels (db (handle_text_message e uid m s)) = channels (db s)"
  "adding_channel (user_data (handle_text_message e uid m s) v) = adding_channel (user_data s v)"
  by (simp_all add: handle_text_message_def Let_def emit_simps show_post_preview_simps
      split: option.splits)

lemma forwarded_frame:
  "scheduled_posts (db (handle_forwarded_message e u m s)) = scheduled_posts (db s)"
  "adding_channel (user_data (handle_forwarded_message e u m s) v) = Some b \<Longrightarrow>
     adding_channel (user_data s v) = Some b"
  by (auto simp: handle_forwarded_message_def emit_simps save_channel_def
      split: option.splits sum.splits if_splits)

lemma forwarded_without_flag:
  "adding_channel (user_data s (user_id u)) \<noteq> Some True \<Longrightarrow>
     handle_forwarded_message e u m s = s"
  by (simp add: handle_forwarded_message_def)

lemma schedule_frame:
  "db (schedule_post uid s) = db s"
  "adding_channel (user_data (schedule_post uid s) v) = adding_channel (user_data s v)"
  by (simp_all add: schedule_post_def emit_def)

lemma callback_frame:
  "scheduled_posts (db (snd (handle_callback e u data s))) = scheduled_posts (db s)"
  "channels (db (snd (handle_callback e u data s))) = channels (db s)"
  "adding_channel (user_data (snd (handle_callback e u data s)) v) =
     adding_channel (user_data s v)"
  by (simp_all add: handle_callback_def Let_def emit_simps show_main_menu_def
      show_post_preview_simps deliver_frame schedule_frame save_user_def
      split: option.splits)

lemma error_handler_simps:
  "db (error_handler upd err s) = db s" "user_data (error_handler upd err s) = user_data s"
  by (simp_all add: error_handler_def emit_simps)

lemma command_frames:
  "user_data (start u s) = user_data s" "scheduled_posts (db (start u s)) = scheduled_posts (db s)"
  "channels (db (start u s)) = channels (db s)"
  "user_data (help_command s) = user_data s" "db (help_command s) = db s"
  "user_data (snd (new_post u s)) = user_data s" "db (snd (new_post u s)) = db s"
  "user_data (add_channel s) = user_data s" "db (add_channel s) = db s"
  "user_data (my_channels u s) = user_data s" "db (my_channels u s) = db s"
  "user_data (settings s) = user_data s" "db (settings s) = db s"
  "user_data (change_language s) = user_data s" "db (change_language s) = db s"
  "db (handle_reply u c i s) = db s"
  "adding_channel (user_data (handle_reply u c i s) v) = adding_channel (user_data s v)"
  by (simp_all add: start_def Let_def save_user_def help_command_def new_post_def
      add_channel_def my_channels_def settings_def change_language_def handle_reply_def
      emit_simps)

lemma dispatch_callback:
  "dispatch e upd u (Callback data) s = snd (handle_callback e u data s) \<or>
   (\<exists>err. dispatch e upd u (Callback data) s =
      error_handler upd err (snd (handle_callback e u data s)))"
  by (cases "handle_callback e u data s") (auto split: option.splits)

lemma dispatch_newpost:
  "dispatch e upd u Cmd_newpost s = snd (new_post u s) \<or>
   (\<exists>err. dispatch e upd u Cmd_newpost s = error_handler upd err (snd (new_post u s)))"
  by (cases "new_post u s") (auto split: option.splits)

lemma dispatch_message:
  "dispatch e upd u (Message m) s = handle_forwarded_message e u m s \<or>
   dispatch e upd u (Message m) s = handle_text_message e (user_id u) m s \<or>
   dispatch e upd u (Message m) s = s"
  by simp

lemma dispatch_scheduled:
  "scheduled_posts (db (dispatch e upd u x s)) = scheduled_posts (db s)"
proof (cases x)
  case (Callback data)
  then show ?thesis
    using callback_frame(1)[of e u data s] dispatch_callback[of e upd u data s]
    by (auto simp: error_handler_simps)
next
  case Cmd_newpost
  then show ?thesis
    using dispatch_newpost[of e upd u s]
    by (auto simp: error_handler_simps command_frames)
next
  case (Message m)
  then show ?thesis
    using dispatch_message[of e upd u m s] forwarded_frame(1)[of e u m s]
      text_frame(1)[of e "user_id u" m s]
    by auto
qed (simp_all add: command_frames)

lemma dispatch_flag:
  "adding_channel (user_data (dispatch e upd u x s) v) = Some b \<Longrightarrow>
     adding_channel (user_data s v) = Some b"
proof (cases x)
  case (Callback data)
  then show "adding_channel (user_data (dispatch e upd u x s) v) = Some b \<Longrightarrow>
     adding_channel (user_data s v) = Some b"
    using callback_frame(3)[of e u data s v] dispatch_callback[of e upd u data s]
    by (auto simp: error_handler_simps)
next
  case Cmd_newpost
  then show "adding_channel (user_data (dispatch e upd u x s) v) = Some b \<Longrightarrow>
     adding_channel (user_data s v) = Some b"
    using dispatch_newpost[of e upd u s]
    by (auto simp: error_handler_simps command_frames)
next
  case (Message m)
  then show "adding_channel (user_data (dispatch e upd u x s) v) = Some b \<Longrightarrow>
     adding_channel (user_data s v) = Some b"
    using dispatch_message[of e upd u m s] forwarded_frame(2)[of e u m s v b]
      text_frame(3)[of e "user_id u" m s v]
    by auto
qed (simp_all add: command_frames)

lemma run_flag:
  "adding_channel (user_data (run xs s) v) = Some b \<Longrightarrow> adding_channel (user_data s v) = Some b"
proof (induction xs arbitrary: s)
  case Nil
  then show ?case by simp
next
  case (Cons x xs)
  obtain e upd u y where x: "x = (e, upd, u, y)" by (cases x) auto
  from Cons.prems have "adding_channel (user_data (run xs (dispatch e upd u y s)) v) = Some b"
    by (simp add: x)
  from dispatch_flag[OF Cons.IH[OF this]] show ?case .
qed

lemma dispatch_channels:
  "\<forall>v. adding_channel (user_data s v) \<noteq> Some True \<Longrightarrow>
     channels (db (dispatch e upd u x s)) = channels (db s)"
proof (cases x)
  case (Callback data)
  then show ?thesis
    using callback_frame(2)[of e u data s] dispatch_callback[of e upd u data s]
    by (auto simp: error_handler_simps)
next
  case Cmd_newpost
  then show ?thesis
    using dispatch_newpost[of e upd u s]
    by (auto simp: error_handler_simps command_frames)
next
  case (Message m)
  assume "\<forall>v. adding_channel (user_data s v) \<noteq> Some True"
  then have "handle_forwarded_message e u m s = s"
    by (simp add: forwarded_without_flag)
  with Message show ?thesis
    using dispatch_message[of e upd u m s] text_frame(2)[of e "user_id u" m s]
    by auto
qed (simp_all add: command_frames)

lemma registry_stays_empty: "channels (db (run xs initial_state)) = []"
proof -
  have "(\<forall>v. adding_channel (user_data s v) \<noteq> Some True) \<Longrightarrow>
      channels (db (run xs s)) = channels (db s)" for s
  proof (induction xs arbitrary: s)
    case Nil
    then show ?case by simp
  next
    case (Cons x xs)
    obtain e upd u y where x: "x = (e, upd, u, y)" by (cases x) auto
    have "\<forall>v. adding_channel (user_data (dispatch e upd u y s) v) \<noteq> Some True"
      using Cons.prems dispatch_flag[of e upd u y s] by blast
    from Cons.IH[OF this] dispatch_channels[OF Cons.prems, of e upd u y]
    show ?case by (simp add: x)
  qed
  from this[of initial_state] show ?thesis
    by (simp add: initial_state_def empty_session_def empty_database_def)
qed

section \<open>Composing\<close>

lemma text_message_appends:
  assumes "creating_post (user_data s uid) = Some True"
    and "get_channel (db s) (selected_channel (user_data s uid)) = Some ch"
  shows "handle_text_message e uid m s =
     show_post_preview uid False
       (s\<lparr>user_data := (user_data s)
          (uid := (user_data s uid)
             \<lparr>post_messages := Some (session_blocks s uid @ [make_message_data (now_isoformat e) m])\<rparr>)\<rparr>)"
  using assms by (simp add: handle_text_message_def session_blocks_def Let_def)

lemma text_message_state:
  assumes "creating_post (user_data s uid) = Some True"
    and "get_channel (db s) (selected_channel (user_data s uid)) = Some ch"
  shows "db (handle_text_message e uid m s) = db s"
    and "user_data (handle_text_message e uid m s) =
      (user_data s)(uid := (user_data s uid)
         \<lparr>post_messages := Some (session_blocks s uid @ [make_message_data (now_isoformat e) m])\<rparr>)"
  unfolding text_message_appends[OF assms]
  by (simp_all add: show_post_preview_simps)

lemma text_message_not_found:
  assumes "creating_post (user_data s uid) = Some True"
    and "get_channel (db s) (selected_channel (user_data s uid)) = None"
  shows "handle_text_message e uid m s = emit (Reply_text ''Channel not found.'') s"
  using assms by (simp add: handle_text_message_def)

lemma forwarded_blocks:
  "post_messages (user_data (handle_forwarded_message e u m s) v) = post_messages (user_data s v)"
  by (simp add: handle_forwarded_message_def emit_simps split: option.splits sum.splits)

lemma dispatch_plain:
  "plain_text_message m \<Longrightarrow>
     dispatch e upd u (Message m) s = handle_text_message e (user_id u) m s"
  by (simp add: plain_text_message_def)

lemma dispatch_forwarded:
  "filter_forwarded m \<Longrightarrow>
     dispatch e upd u (Message m) s = handle_forwarded_message e u m s"
  by simp

lemma feed_blocks:
  assumes "creating_post (user_data s (user_id u)) = Some True"
    and "get_channel (db s) (selected_channel (user_data s (user_id u))) = Some ch"
    and "list_all plain_text_message (map snd ems)"
  shows "session_blocks (feed u ems s) (user_id u) =
           session_blocks s (user_id u) @
             map (\<lambda>em. make_message_data (now_isoformat (fst em)) (snd em)) ems
         \<and> creating_post (user_data (feed u ems s) (user_id u)) = Some True
         \<and> get_channel (db (feed u ems s))
               (selected_channel (user_data (feed u ems s) (user_id u))) = Some ch"
  using assms
proof (induction ems arbitrary: s)
  case Nil
  then show ?case by (simp add: feed_def)
next
  case (Cons em ems)
  let ?s1 = "handle_text_message (fst em) (user_id u) (snd em) s"
  note st = text_message_state[OF Cons.prems(1,2), of "fst em" "snd em"]
  have a: "creating_post (user_data ?s1 (user_id u)) = Some True"
    using Cons.prems(1) by (simp add: st)
  have b: "get_channel (db ?s1) (selected_channel (user_data ?s1 (user_id u))) = Some ch"
    using Cons.prems(2) by (simp add: st)
  have c: "session_blocks ?s1 (user_id u) =
      session_blocks s (user_id u) @ [make_message_data (now_isoformat (fst em)) (snd em)]"
    by (simp add: st session_blocks_def)
  from Cons.prems(3) have p: "plain_text_message (snd em)"
    and rest: "list_all plain_text_message (map snd ems)"
    by simp_all
  have "feed u (em # ems) s = feed u ems (dispatch (fst em) [] u (Message (snd em)) s)"
    by (simp add: feed_def del: dispatch.simps)
  then have f: "feed u (em # ems) s = feed u ems ?s1"
    by (simp only: dispatch_plain[OF p])
  from Cons.IH[OF a b rest] show ?case
    unfolding f by (simp add: c)
qed

section \<open>The preview\<close>

lemma preview_loop_eq: "preview_loop xs acc = acc @ concat (map preview_line xs)"
  by (induction xs arbitrary: acc) simp_all

lemma preview_line_item: "preview_line (i, b) = preview_item i b"
proof (cases "nonempty (md_text b)")
  case (Some t)
  then show ?thesis
    unfolding preview_line_def preview_item_def kind_of_def
    by (simp add: not_less)
next
  case None
  then show ?thesis
    unfolding preview_line_def preview_item_def kind_of_def truthy_def
    by simp
qed

lemma preview_items_loop:
  "map preview_line (enumerate 1 (take 3 msgs)) = preview_items msgs"
proof (rule nth_equalityI)
  show "length (map preview_line (enumerate 1 (take 3 msgs))) = length (preview_items msgs)"
    by (simp add: preview_items_def min.commute)
next
  fix k
  assume "k < length (map preview_line (enumerate 1 (take 3 msgs)))"
  then have k: "k < min (length msgs) 3" by (simp add: min.commute)
  then have "enumerate 1 (take 3 msgs) ! k = (Suc k, msgs ! k)"
    by (simp add: nth_enumerate_eq)
  with k show "map preview_line (enumerate 1 (take 3 msgs)) ! k = preview_items msgs ! k"
    by (simp add: preview_items_def preview_line_item)
qed

lemma build_preview_eq:
  "build_preview ch msgs =
     preview_header ch (length msgs) @ concat (preview_items msgs) @
     preview_remainder (length msgs)"
  unfolding build_preview_def Let_def preview_loop_eq preview_items_loop preview_remainder_def
  by simp

lemma str_nat_nonempty: "str_nat n \<noteq> []"
  by (subst str_nat.simps) simp

lemma digit_char_inj_all:
  "\<forall>a\<in>{0..<10::nat}. \<forall>b\<in>{0..<10}. digit_char a = digit_char b \<longrightarrow> a = b"
  by code_simp

lemma digit_char_inj: "a < 10 \<Longrightarrow> b < 10 \<Longrightarrow> digit_char a = digit_char b \<Longrightarrow> a = b"
  using digit_char_inj_all by (simp add: Ball_def)

lemma str_nat_inj: "str_nat a = str_nat b \<Longrightarrow> a = b"
proof (induction a arbitrary: b rule: str_nat.induct)
  case (1 n)
  show ?case
  proof (cases "n < 10")
    case True
    note n = this
    show ?thesis
    proof (cases "b < 10")
      case True
      with n "1.prems" have "digit_char n = digit_char b"
        by (simp add: str_nat.simps[of n] str_nat.simps[of b])
      with n True show ?thesis by (rule digit_char_inj)
    next
      case False
      with n "1.prems" have "[digit_char n] = str_nat (b div 10) @ [digit_char (b mod 10)]"
        by (simp add: str_nat.simps[of n] str_nat.simps[of b])
      then show ?thesis using str_nat_nonempty[of "b div 10"] by simp
    qed
  next
    case False
    note n = this
    show ?thesis
    proof (cases "b < 10")
      case True
      with n "1.prems" have "str_nat (n div 10) @ [digit_char (n mod 10)] = [digit_char b]"
        by (simp add: str_nat.simps[of n] str_nat.simps[of b])
      then show ?thesis using str_nat_nonempty[of "n div 10"] by simp
    next
      case False
      with n "1.prems"
      have eq: "str_nat (n div 10) = str_nat (b div 10)" "digit_char (n mod 10) = digit_char (b mod 10)"
        by (simp_all add: str_nat.simps[of n] str_nat.simps[of b])
      from "1.IH"[OF n eq(1)] have d: "n div 10 = b div 10" .
      have m: "n mod 10 = b mod 10"
        by (rule digit_char_inj[OF _ _ eq(2)]) simp_all
      from d m show ?thesis by (metis div_mult_mod_eq)
    qed
  qed
qed

lemma preview_item_text:
  "nonempty (md_text b) = Some t \<Longrightarrow>
     preview_item i b = str_nat i @ ''. '' @ emoji_memo @ '' '' @
       (if py_len t \<le> 100 then t else py_take 100 t @ ''...'') @ nl"
  unfolding preview_item_def kind_of_def by simp

lemma preview_item_media:
  assumes "nonempty (md_text b) = None"
  shows "nonempty (md_photo b) \<noteq> None \<Longrightarrow>
           preview_item i b = str_nat i @ ''. '' @ emoji_camera @ '' Photo with caption'' @ nl"
    and "nonempty (md_photo b) = None \<Longrightarrow> nonempty (md_video b) \<noteq> None \<Longrightarrow>
           preview_item i b = str_nat i @ ''. '' @ emoji_movie @ '' Video with caption'' @ nl"
    and "nonempty (md_photo b) = None \<Longrightarrow> nonempty (md_video b) = None \<Longrightarrow>
         nonempty (md_document b) \<noteq> None \<Longrightarrow>
           preview_item i b = str_nat i @ ''. '' @ emoji_page @ '' Document with caption'' @ nl"
    and "nonempty (md_photo b) = None \<Longrightarrow> nonempty (md_video b) = None \<Longrightarrow>
         nonempty (md_document b) = None \<Longrightarrow> preview_item i b = []"
  using assms unfolding preview_item_def kind_of_def by simp_all

lemma py_len_take_example:
  "py_len (emoji_memo @ ''ab'') = 3 \<and> py_take 1 (emoji_memo @ ''ab'') = emoji_memo \<and>
   py_take 2 (emoji_memo @ ''ab'') = emoji_memo @ ''a''"
  by (simp add: py_len_def is_continuation_def emoji_memo_def)

section \<open>Claims\<close>

lemmas ex_defs = ex_env_def ex_flaky_env_def ex_text_message_def ex_document_message_def
  ex_text_block_def ex_document_block_def ex_channel_def ex_state_def ex_user_def
  ex_chat_def ex_forwarded_message_def ex_claiming_state_def
  empty_database_def empty_session_def make_message_data_def html_or_def truthy_def
  block_call_def get_caption_def get_channel_def ex_three_state_def ex_two_state_def

lemma ex_three_first_run:
  "send_post_to_channel ex_flaky_env 7 ex_three_state =
     ex_three_state\<lparr>trace :=
       [Channel_send (Send_message (- 1001) ''one'' []) (Inr 100),
        Channel_send (Send_message (- 1001) ''two'' []) (Inl ''Timed out''),
        Logger_error ''Error sending post: Timed out'',
        Query_answer (Some ''Error sending post: Timed out'')]\<rparr>"
  by (simp add: send_post_to_channel_def ex_defs Let_def telegram_error_def emit_def)

lemma ex_two_run:
  "send_post_to_channel ex_env 7 ex_two_state =
     ex_two_state\<lparr>
       db := (db ex_two_state)\<lparr>posts := (posts (db ex_two_state))
          (''-1001_1704110400.0'' \<mapsto> stored_post ex_env 7 (- 1001)
             [ex_text_block 1 ''one'', ex_text_block 2 ''two''] [100, 101])\<rparr>,
       user_data := (user_data ex_two_state)
          (7 := (user_data ex_two_state 7)\<lparr>post_messages := None, selected_channel := None,
             creating_post := None\<rparr>),
       trace :=
       [Channel_send (Send_message (- 1001) ''one'' []) (Inr 100),
        Channel_send (Send_message (- 1001) ''two'' []) (Inr 101),
        Db_put_post ''-1001_1704110400.0'',
        Edit_message_text (success_text (ex_channel 7 (Some ''123456:token'')) [100, 101]
          ''2024-01-01 12:00:00'')]\<rparr>"
  by (simp add: send_post_to_channel_def ex_defs Let_def stored_post_def str_int_def
      digit_char_def)

text \<open>
  Claim C1 says that delivery makes one transport call per block, in arrival order, with
  the block's own content type, for text, photo, video and document blocks, and never
  skips a block. The loop of \<open>send_post_to_channel\<close> has branches for photo, video and
  text only; a document block (which \<open>handle_text_message\<close> builds and the preview
  shows) falls into \<open>else: continue\<close>. For the session holding a document block and
  then a text block, delivery makes a single transport call, the \<open>send_message\<close> of the
  second block: no call is made for the document, and the post is stored as sent with one
  message id for its two blocks.
\<close>

theorem C1_document_block_is_skipped:
  "block_call (- 1001) ex_document_block = None \<and>
   attempts (trace (send_post_to_channel ex_env 7
     (ex_state (Some ''123456:token'') [ex_document_block, ex_text_block 12 ''Hello'']))) =
     [Send_message (- 1001) ''Hello'' []] \<and>
   map_option post_sent_messages
     (posts (db (send_post_to_channel ex_env 7
        (ex_state (Some ''123456:token'') [ex_document_block, ex_text_block 12 ''Hello''])))
        ''-1001_1704110400.0'') = Some [100]"
  by (simp add: send_post_to_channel_def ex_defs attempts_def Let_def str_int_def
      digit_char_def)

text \<open>
  Claim C2 says that a second \<open>deliver\<close> on a post left partially sent with K
  delivered ids sends blocks K+1 onward only. The source keeps no delivered ids between
  invocations: the list \<open>sent_messages\<close> is local to one call, and after a transport
  error neither the store nor the session has changed. Counterexample: three text blocks,
  the second call times out; the first invocation delivers block 1 (id 100), and the
  second invocation calls the transport for block 1 again, then blocks 2 and 3.
\<close>

theorem C2_second_delivery_resends_counterexample:
  "delivered_ids (new_events ex_three_state
      (send_post_to_channel ex_flaky_env 7 ex_three_state)) = [100] \<and>
   attempts (new_events (send_post_to_channel ex_flaky_env 7 ex_three_state)
      (send_post_to_channel ex_flaky_env 7
         (send_post_to_channel ex_flaky_env 7 ex_three_state))) =
     [Send_message (- 1001) ''one'' [], Send_message (- 1001) ''two'' [],
      Send_message (- 1001) ''three'' []]"
  unfolding ex_three_first_run
  by (simp add: send_post_to_channel_def ex_defs Let_def telegram_error_def emit_def
      new_events_def trace_reading)

text \<open>
  Claim C2, amended: when an invocation stops at a transport error after K delivered
  blocks, the store and the session are left as they were; the calls it made are those of
  the first K+1 calls of the block list; and the calls of any further invocation are
  again an initial segment of the calls of the whole block list, from the first block on:
  all of them when that invocation completes and stores the post.
\<close>

theorem C2_redelivery_starts_at_first_block:
  assumes "Channel_send c (Inl err) \<in> set (new_events s (send_post_to_channel e uid s))"
  shows "db (send_post_to_channel e uid s) = db s \<and>
         user_data (send_post_to_channel e uid s) = user_data s \<and>
         (\<exists>cid msgs.
            selected_channel (user_data s uid) = Some cid \<and>
            post_messages (user_data s uid) = Some msgs \<and>
            length (delivered_ids (new_events s (send_post_to_channel e uid s)))
              < length (calls cid msgs) \<and>
            attempts (new_events s (send_post_to_channel e uid s)) =
              take (Suc (length (delivered_ids (new_events s (send_post_to_channel e uid s)))))
                (calls cid msgs) \<and>
            (\<exists>k. attempts (new_events (send_post_to_channel e uid s)
                     (send_post_to_channel e' uid (send_post_to_channel e uid s))) =
                   take k (calls cid msgs)) \<and>
            (Db_put_post pid \<in> set (new_events (send_post_to_channel e uid s)
                 (send_post_to_channel e' uid (send_post_to_channel e uid s))) \<longrightarrow>
             attempts (new_events (send_post_to_channel e uid s)
                 (send_post_to_channel e' uid (send_post_to_channel e uid s))) =
               calls cid msgs))"
proof (cases rule: deliver_cases[of e uid s])
  case (early notice)
  with assms show ?thesis by (simp add: new_events_def emit_simps)
next
  case (init_error err')
  with assms show ?thesis by (simp add: new_events_def telegram_error_simps)
next
  case (success cid ch msgs ids)
  from assms show ?thesis
    unfolding success(5) new_events_def
    using sent_ok_not_Inl[of c err "zip (calls cid msgs) ids"]
    by auto
next
  case (send_error cid msgs ids err')
  let ?s1 = "send_post_to_channel e uid s"
  have same: "db ?s1 = db s" "user_data ?s1 = user_data s"
    unfolding send_error(4) by (simp_all add: telegram_error_simps)
  have ids1: "delivered_ids (new_events s ?s1) = ids"
    unfolding send_error(4) new_events_def using send_error(3)
    by (simp add: telegram_error_simps delivered_ids_append delivered_ids_sent_ok
        map_snd_zip_le trace_reading)
  have att1: "attempts (new_events s ?s1) = take (Suc (length ids)) (calls cid msgs)"
    unfolding send_error(4) new_events_def using send_error(3)
    by (simp add: telegram_error_simps attempts_append attempts_sent_ok map_fst_zip_le
        take_Suc_conv_app_nth trace_reading)
  have sess1: "selected_channel (user_data ?s1 uid) = Some cid"
    "post_messages (user_data ?s1 uid) = Some msgs"
    using send_error(1,2) same by simp_all
  have att2: "\<exists>k. attempts (new_events ?s1 (send_post_to_channel e' uid ?s1)) =
      take k (calls cid msgs)"
    by (rule deliver_attempts[OF sess1])
  have all2: "attempts (new_events ?s1 (send_post_to_channel e' uid ?s1)) = calls cid msgs"
    if put: "Db_put_post pid \<in> set (new_events ?s1 (send_post_to_channel e' uid ?s1))"
  proof (cases rule: deliver_cases[of e' uid ?s1])
    case (early notice)
    with put show ?thesis by (simp add: new_events_def emit_simps)
  next
    case (init_error err2)
    with put show ?thesis by (simp add: new_events_def telegram_error_simps)
  next
    case (send_error cid2 msgs2 ids2 err2)
    from put show ?thesis
      unfolding send_error(4) new_events_def
      using sent_ok_not_put[of pid "zip (calls cid2 msgs2) ids2"]
      by (simp add: telegram_error_simps)
  next
    case (success cid2 ch2 msgs2 ids2)
    with sess1 have eq: "cid2 = cid" "msgs2 = msgs" by simp_all
    from success(4) eq show ?thesis
      unfolding success(5) new_events_def
      by (simp add: attempts_append attempts_sent_ok map_fst_zip_le trace_reading)
  qed
  from same send_error(1,2,3) ids1 att1 att2 all2 show ?thesis
    by (simp only: ids1) blast
qed

theorem C2_redelivery_witness:
  "Channel_send (Send_message (- 1001) ''two'' []) (Inl ''Timed out'')
     \<in> set (new_events ex_three_state (send_post_to_channel ex_flaky_env 7 ex_three_state)) \<and>
   db (send_post_to_channel ex_flaky_env 7 ex_three_state) = db ex_three_state \<and>
   user_data (send_post_to_channel ex_flaky_env 7 ex_three_state) = user_data ex_three_state"
proof -
  have h: "Channel_send (Send_message (- 1001) ''two'' []) (Inl ''Timed out'')
     \<in> set (new_events ex_three_state (send_post_to_channel ex_flaky_env 7 ex_three_state))"
    unfolding ex_three_first_run by (simp add: new_events_def ex_defs)
  from C2_redelivery_starts_at_first_block[OF h] h show ?thesis by blast
qed

text \<open>
  Claim C3 says that each message id is appended to the post's delivered-id list and
  written to the store right after its send, before the next send is attempted. In the
  source the ids are collected in the local list \<open>sent_messages\<close> and the post is
  written once, after the loop. Counterexample: for two text blocks the trace is send,
  send, store write, so the first send is not followed by a write; and when the second of
  three calls fails, one id has been delivered and the posts table is empty.
\<close>

theorem C3_no_write_between_sends_counterexample:
  "\<not> persisted_after_each_send (new_events ex_two_state
        (send_post_to_channel ex_env 7 ex_two_state)) \<and>
   delivered_ids (new_events ex_three_state
        (send_post_to_channel ex_flaky_env 7 ex_three_state)) = [100] \<and>
   posts (db (send_post_to_channel ex_flaky_env 7 ex_three_state)) = Map.empty"
  unfolding ex_three_first_run ex_two_run
  by (simp add: new_events_def ex_defs trace_reading)

text \<open>
  Claim C3, amended: the message ids are collected during the loop and stored once, after
  the last send. Whenever a delivery writes the post, every transport call of that
  delivery precedes the write, none of them failed, they are the calls of the whole block
  list, no other write occurs, and the stored \<open>sent_messages\<close> is the list of all
  their message ids.
\<close>

theorem C3_ids_stored_once_after_all_sends:
  assumes "new_events s (send_post_to_channel e uid s) = pre @ Db_put_post pid # post"
  shows "attempts post = [] \<and>
         (\<forall>p. Db_put_post p \<notin> set pre) \<and>
         (\<forall>c err. Channel_send c (Inl err) \<notin> set pre) \<and>
         (\<exists>cid msgs. selected_channel (user_data s uid) = Some cid \<and>
            post_messages (user_data s uid) = Some msgs \<and>
            attempts pre = calls cid msgs) \<and>
         length (delivered_ids pre) = length (attempts pre) \<and>
         map_option post_sent_messages (posts (db (send_post_to_channel e uid s)) pid) =
           Some (delivered_ids pre)"
proof -
  from assms have "Db_put_post pid \<in> set (new_events s (send_post_to_channel e uid s))"
    by simp
  then obtain cid ch msgs ids where
    sess: "selected_channel (user_data s uid) = Some cid"
      "post_messages (user_data s uid) = Some msgs"
    and len: "length ids = length (calls cid msgs)"
    and evs: "new_events s (send_post_to_channel e uid s) =
       map sent_ok (zip (calls cid msgs) ids) @
       [Db_put_post pid, Edit_message_text (success_text ch ids (now_strftime e))]"
    and stored: "posts (db (send_post_to_channel e uid s)) pid =
       Some (stored_post e uid cid msgs ids)"
    by (rule put_post_shape)
  let ?sends = "map sent_ok (zip (calls cid msgs) ids)"
  let ?tail = "[Edit_message_text (success_text ch ids (now_strftime e))]"
  have "Db_put_post pid \<notin> set ?sends" "Db_put_post pid \<notin> set ?tail"
    using sent_ok_not_put by simp_all
  from append_Cons_eq_iff[OF this] assms evs
  have pre: "pre = ?sends" and post: "post = ?tail"
    by simp_all
  show ?thesis
    using sess len sent_ok_not_put sent_ok_not_Inl
    unfolding pre post stored
    by (simp add: attempts_sent_ok delivered_ids_sent_ok map_fst_zip_le map_snd_zip_le
        trace_reading stored_post_def)
qed

theorem C3_ids_stored_witness:
  "new_events ex_two_state (send_post_to_channel ex_env 7 ex_two_state) =
     [Channel_send (Send_message (- 1001) ''one'' []) (Inr 100),
      Channel_send (Send_message (- 1001) ''two'' []) (Inr 101)] @
     Db_put_post ''-1001_1704110400.0'' #
     [Edit_message_text (success_text (ex_channel 7 (Some ''123456:token'')) [100, 101]
          ''2024-01-01 12:00:00'')] \<and>
   map_option post_sent_messages
     (posts (db (send_post_to_channel ex_env 7 ex_two_state)) ''-1001_1704110400.0'') =
     Some [100, 101]"
proof -
  have h: "new_events ex_two_state (send_post_to_channel ex_env 7 ex_two_state) =
     [Channel_send (Send_message (- 1001) ''one'' []) (Inr 100),
      Channel_send (Send_message (- 1001) ''two'' []) (Inr 101)] @
     Db_put_post ''-1001_1704110400.0'' #
     [Edit_message_text (success_text (ex_channel 7 (Some ''123456:token'')) [100, 101]
          ''2024-01-01 12:00:00'')]"
    unfolding ex_two_run by (simp add: new_events_def ex_defs)
  from C3_ids_stored_once_after_all_sends[OF h] h show ?thesis
    by (simp add: trace_reading)
qed

text \<open>
  Claim C4 says that scheduling a past time (or now) yields a ValidationError and leaves
  the composer unchanged, and that scheduling a future time creates a ScheduleEntry
  (pending, due at the requested time) and a Post in state scheduled. \<open>schedule_post\<close>
  takes no time and checks none: it shows the prompt and sets \<open>scheduling_post\<close>; the
  quick-pick buttons it offers send callback data that no branch of \<open>handle_callback\<close>
  matches. Counterexample: user 7, composing with one block, requests scheduling and picks
  "Tomorrow 09:00": no schedule entry and no post exist afterwards, and the request itself
  has changed the session (the flag is set).
\<close>

theorem C4_no_schedule_entry_counterexample:
  "scheduled_posts (db (dispatch ex_env ''u'' (ex_user 7) (Callback ''schedule_tomorrow_0900'')
      (dispatch ex_env ''u'' (ex_user 7) (Callback ''schedule_post'')
         (ex_state (Some ''123456:token'') [ex_text_block 1 ''one''])))) = Map.empty \<and>
   posts (db (dispatch ex_env ''u'' (ex_user 7) (Callback ''schedule_tomorrow_0900'')
      (dispatch ex_env ''u'' (ex_user 7) (Callback ''schedule_post'')
         (ex_state (Some ''123456:token'') [ex_text_block 1 ''one''])))) = Map.empty \<and>
   scheduling_post (user_data (dispatch ex_env ''u'' (ex_user 7) (Callback ''schedule_post'')
         (ex_state (Some ''123456:token'') [ex_text_block 1 ''one''])) 7) = Some True \<and>
   scheduling_post (user_data (ex_state (Some ''123456:token'') [ex_text_block 1 ''one'']) 7) = None"
  by (simp add: handle_callback_def Let_def startswith_def schedule_post_def emit_def ex_defs)

text \<open>
  Claim C4, amended: a scheduling request takes no time and validates none. It answers the
  callback, shows the prompt and sets the flag \<open>scheduling_post\<close> of the user, leaving
  the store unchanged; a quick-pick callback such as \<open>schedule_tomorrow_0900\<close> is answered
  and changes nothing; and no operation of the program ever writes \<open>scheduled_posts\<close>, so
  in every run from boot it is empty: no ScheduleEntry and no scheduled Post is created.
\<close>

theorem C4_scheduling_creates_nothing:
  "scheduled_posts (db (dispatch e upd u x s)) = scheduled_posts (db s) \<and>
   db (dispatch e upd u (Callback ''schedule_post'') s) = db s \<and>
   user_data (dispatch e upd u (Callback ''schedule_post'') s) =
     (user_data s)(user_id u := (user_data s (user_id u))\<lparr>scheduling_post := Some True\<rparr>) \<and>
   new_events s (dispatch e upd u (Callback ''schedule_post'') s) =
     [Query_answer None, Edit_message_text schedule_prompt] \<and>
   dispatch e upd u (Callback ''schedule_tomorrow_0900'') s = emit (Query_answer None) s \<and>
   scheduled_posts (db (run xs initial_state)) = Map.empty"
proof -
  have "scheduled_posts (db (run xs s')) = scheduled_posts (db s')" for s'
  proof (induction xs arbitrary: s')
    case Nil
    then show ?case by simp
  next
    case (Cons y ys)
    obtain e' upd' u' z where y: "y = (e', upd', u', z)" by (cases y) auto
    show ?case by (simp add: y Cons.IH dispatch_scheduled)
  qed
  from this[of initial_state]
  have run0: "scheduled_posts (db (run xs initial_state)) = Map.empty"
    by (simp add: initial_state_def empty_database_def)
  have sched: "handle_callback e u ''schedule_post'' s =
      (None, schedule_post (user_id u) (emit (Query_answer None) s))"
    by (simp add: handle_callback_def Let_def startswith_def)
  have quick: "handle_callback e u ''schedule_tomorrow_0900'' s = (None, emit (Query_answer None) s)"
    by (simp add: handle_callback_def Let_def startswith_def)
  show ?thesis
    using run0
    by (simp add: dispatch_scheduled sched quick schedule_post_def emit_def new_events_def)
qed

text \<open>
  Claim C5 says that a second verified claim of a channel by another user adds the
  claimant to the admin set and keeps the owner of the first claim. The handler builds a
  fresh \<open>channel_data\<close> with the claimant as owner and only admin, and
  \<open>db.save_channel\<close> overwrites the record. Counterexample, from a state in which
  users 1 and 2 hold the flag \<open>adding_channel\<close>: user 1 claims channel \<open>-1001\<close>
  (owner 1), then user 2 claims it: the owner is 2 and the admin list is [2].
\<close>

theorem C5_second_claim_replaces_owner_counterexample:
  "map_option ch_owner_id (get_channel (db
      (handle_forwarded_message ex_env (ex_user 1) ex_forwarded_message ex_claiming_state))
      (Some (- 1001))) = Some 1 \<and>
   map_option ch_owner_id (get_channel (db
      (handle_forwarded_message ex_env (ex_user 2) ex_forwarded_message
        (handle_forwarded_message ex_env (ex_user 1) ex_forwarded_message ex_claiming_state)))
      (Some (- 1001))) = Some 2 \<and>
   map_option ch_admins (get_channel (db
      (handle_forwarded_message ex_env (ex_user 2) ex_forwarded_message
        (handle_forwarded_message ex_env (ex_user 1) ex_forwarded_message ex_claiming_state)))
      (Some (- 1001))) = Some [2]"
  by (simp add: handle_forwarded_message_def ex_defs save_channel_def make_channel_data_def)

text \<open>
  Claim C5, amended: every verified claim (flag \<open>adding_channel\<close> set, forwarded from a
  channel or group, claimant creator or administrator) replaces the Channel record by a
  fresh one: the claimant is the owner and the only admin, and the bound credential is
  \<open>None\<close>, whatever record the channel had before.
\<close>

theorem C5_verified_claim_replaces_record:
  assumes "adding_channel (user_data s (user_id u)) = Some True"
    and "msg_forward_from_chat m = Some c"
    and "chat_type c = ''channel'' \<or> chat_type c = ''group''"
    and "get_chat_member e (chat_id c) (user_id u) = Inr status"
    and "status = ''creator'' \<or> status = ''administrator''"
  shows "get_channel (db (handle_forwarded_message e u m s)) (Some (chat_id c)) =
           Some (make_channel_data e (user_id u) c) \<and>
         ch_owner_id (make_channel_data e (user_id u) c) = user_id u \<and>
         ch_admins (make_channel_data e (user_id u) c) = [user_id u] \<and>
         ch_bot_token (make_channel_data e (user_id u) c) = None"
  using assms
  by (auto simp: handle_forwarded_message_def get_channel_def save_channel_def
      update_conv' make_channel_data_def)

theorem C5_verified_claim_witness:
  "adding_channel (user_data ex_claiming_state (user_id (ex_user 2))) = Some True \<and>
   msg_forward_from_chat ex_forwarded_message = Some ex_chat \<and>
   chat_type ex_chat = ''channel'' \<and>
   get_chat_member ex_env (chat_id ex_chat) (user_id (ex_user 2)) = Inr ''administrator'' \<and>
   get_channel (db (handle_forwarded_message ex_env (ex_user 2) ex_forwarded_message
      ex_claiming_state)) (Some (chat_id ex_chat)) =
     Some (make_channel_data ex_env (user_id (ex_user 2)) ex_chat)"
proof -
  have h1: "adding_channel (user_data ex_claiming_state (user_id (ex_user 2))) = Some True"
    by (simp add: ex_defs)
  have h2: "msg_forward_from_chat ex_forwarded_message = Some ex_chat"
    by (simp add: ex_defs)
  have h3: "chat_type ex_chat = ''channel'' \<or> chat_type ex_chat = ''group''"
    by (simp add: ex_defs)
  have h4: "get_chat_member ex_env (chat_id ex_chat) (user_id (ex_user 2)) = Inr ''administrator''"
    by (simp add: ex_defs)
  have h5: "''administrator'' = ''creator'' \<or> ''administrator'' = ''administrator''"
    by simp
  from C5_verified_claim_replaces_record[OF h1 h2 h3 h4 h5] h1 h2 h4
  show ?thesis by (simp add: ex_defs)
qed

text \<open>
  Claim C6 says that for a channel without bound credential \<open>deliver\<close> sets the Post to
  state failed with reason "no credential bound" and makes no transport call. The source
  makes no transport call, but it creates no Post either: it alerts the user and returns.
  Counterexample: one text block, channel with \<open>bot_token = None\<close>; afterwards the posts
  table is empty and the only event is the alert, whose text is not "no credential bound".
\<close>

theorem C6_no_failed_post_counterexample:
  "posts (db (send_post_to_channel ex_env 7 (ex_state None [ex_text_block 1 ''one'']))) = Map.empty \<and>
   trace (send_post_to_channel ex_env 7 (ex_state None [ex_text_block 1 ''one''])) =
     [Query_answer (Some ''No bot connected to this channel. Please add a bot first.'')] \<and>
   Query_answer (Some ''no credential bound'')
     \<notin> set (trace (send_post_to_channel ex_env 7 (ex_state None [ex_text_block 1 ''one''])))"
  by (simp add: send_post_to_channel_def ex_defs Let_def emit_def)

text \<open>
  Claim C6, amended: when the selected channel has no bound credential (\<open>bot_token\<close> is
  \<open>None\<close> or empty), \<open>send_post_to_channel\<close> makes no transport call, leaves the store
  (no Post is written) and the session unchanged, and answers the callback with the alert
  "No bot connected to this channel. Please add a bot first." (with "No content to send."
  when the session holds no block).
\<close>

theorem C6_missing_credential_alert_only:
  assumes "get_channel (db s) (selected_channel (user_data s uid)) = Some ch"
    and "\<not> truthy (ch_bot_token ch)"
  shows "db (send_post_to_channel e uid s) = db s \<and>
         user_data (send_post_to_channel e uid s) = user_data s \<and>
         attempts (new_events s (send_post_to_channel e uid s)) = [] \<and>
         new_events s (send_post_to_channel e uid s) =
           [Query_answer (Some
              (if post_messages (user_data s uid) = None \<or> post_messages (user_data s uid) = Some []
               then ''No content to send.''
               else ''No bot connected to this channel. Please add a bot first.''))]"
proof -
  from assms(1) obtain cid where cid: "selected_channel (user_data s uid) = Some cid"
    by (cases "selected_channel (user_data s uid)") (simp_all add: get_channel_def)
  from assms(2) have tok: "nonempty (ch_bot_token ch) = None"
    by (simp add: truthy_def)
  have "send_post_to_channel e uid s =
      emit (Query_answer (Some
              (if post_messages (user_data s uid) = None \<or> post_messages (user_data s uid) = Some []
               then ''No content to send.''
               else ''No bot connected to this channel. Please add a bot first.''))) s"
    using assms(1) cid tok
    by (simp add: send_post_to_channel_def Let_def split: option.splits)
  then show ?thesis
    by (simp add: emit_simps new_events_def trace_reading)
qed

theorem C6_missing_credential_witness:
  "get_channel (db (ex_state None [ex_text_block 1 ''one'']))
     (selected_channel (user_data (ex_state None [ex_text_block 1 ''one'']) 7)) =
     Some (ex_channel 7 None) \<and>
   \<not> truthy (ch_bot_token (ex_channel 7 None)) \<and>
   attempts (new_events (ex_state None [ex_text_block 1 ''one''])
     (send_post_to_channel ex_env 7 (ex_state None [ex_text_block 1 ''one'']))) = [] \<and>
   db (send_post_to_channel ex_env 7 (ex_state None [ex_text_block 1 ''one''])) =
     db (ex_state None [ex_text_block 1 ''one''])"
proof -
  have h1: "get_channel (db (ex_state None [ex_text_block 1 ''one'']))
     (selected_channel (user_data (ex_state None [ex_text_block 1 ''one'']) 7)) =
     Some (ex_channel 7 None)"
    by (simp add: ex_defs)
  have h2: "\<not> truthy (ch_bot_token (ex_channel 7 None))"
    by (simp add: ex_defs)
  from C6_missing_credential_alert_only[OF h1 h2, of ex_env] h1 h2 show ?thesis by blast
qed

text \<open>
  Claim C7 says that for every session holding N blocks the preview reports the block
  count as exactly N, renders the first \<open>min N 3\<close> blocks and leaves the block list
  alone. \<open>show_post_preview\<close> first tests \<open>if not post_messages\<close>: for N = 0 it sends a
  fixed notice that holds no count at all. Counterexample: the session of user 7 at boot
  holds no block; the preview is the notice, in which no digit occurs.
\<close>

theorem C7_empty_preview_has_no_count_counterexample:
  "session_blocks initial_state 7 = [] \<and>
   new_events initial_state (show_post_preview 7 True initial_state) =
     [Edit_message_text ''No content added yet. Send me messages to build your post.''] \<and>
   list_all (\<lambda>c. \<not> is_digit c)
     ''No content added yet. Send me messages to build your post.''"
  by (simp add: session_blocks_def initial_state_def empty_session_def show_post_preview_def
      Let_def new_events_def emit_def is_digit_def)

text \<open>
  Claim C7, amended: the preview changes neither the store nor any session and sends one
  message. For a session holding N \<ge> 1 blocks that message is the header, whose last
  line is the count N in decimal (\<open>str_nat\<close> is injective, so the text determines N), then
  the items of the first \<open>min N 3\<close> blocks in arrival order, the k-th block numbered k,
  then "... and N-3 more messages" when N > 3. The item of a block with text is its
  number, the memo sign and the text, cut to its first 100 characters and followed by
  three dots when it is longer; the item of a block without text is its number and the
  words for photo, video or document, whichever key comes first; a block with none of the
  four keys has no item. For N = 0 the message is the fixed notice, without a count.
\<close>

theorem C7_preview_reports_count_and_first_three:
  "db (show_post_preview uid cb s) = db s \<and>
   user_data (show_post_preview uid cb s) = user_data s \<and>
   new_events s (show_post_preview uid cb s) =
     [(if cb then Edit_message_text else Reply_text)
        (if session_blocks s uid = []
         then ''No content added yet. Send me messages to build your post.''
         else preview_header (preview_channel s uid) (length (session_blocks s uid)) @
              concat (preview_items (session_blocks s uid)) @
              preview_remainder (length (session_blocks s uid)))] \<and>
   (\<exists>pre. preview_header ch n = pre @ ''<b>Messages:</b> '' @ str_nat n @ nl @ nl) \<and>
   (str_nat n = str_nat n' \<longrightarrow> n = n') \<and>
   length (preview_items msgs) = min (length msgs) 3 \<and>
   (\<forall>k < min (length msgs) 3. preview_items msgs ! k = preview_item (Suc k) (msgs ! k)) \<and>
   (nonempty (md_text b) = Some t \<longrightarrow>
      preview_item i b = str_nat i @ ''. '' @ emoji_memo @ '' '' @
        (if py_len t \<le> 100 then t else py_take 100 t @ ''...'') @ nl) \<and>
   (nonempty (md_text b) = None \<and> nonempty (md_photo b) \<noteq> None \<longrightarrow>
      preview_item i b = str_nat i @ ''. '' @ emoji_camera @ '' Photo with caption'' @ nl) \<and>
   (nonempty (md_text b) = None \<and> nonempty (md_photo b) = None \<and>
    nonempty (md_video b) \<noteq> None \<longrightarrow>
      preview_item i b = str_nat i @ ''. '' @ emoji_movie @ '' Video with caption'' @ nl) \<and>
   (nonempty (md_text b) = None \<and> nonempty (md_photo b) = None \<and>
    nonempty (md_video b) = None \<and> nonempty (md_document b) \<noteq> None \<longrightarrow>
      preview_item i b = str_nat i @ ''. '' @ emoji_page @ '' Document with caption'' @ nl) \<and>
   (nonempty (md_text b) = None \<and> nonempty (md_photo b) = None \<and>
    nonempty (md_video b) = None \<and> nonempty (md_document b) = None \<longrightarrow>
      preview_item i b = [])"
proof -
  have frame: "db (show_post_preview uid cb s) = db s"
    "user_data (show_post_preview uid cb s) = user_data s"
    by (rule show_post_preview_simps)+
  have ev: "new_events s (show_post_preview uid cb s) =
     [(if cb then Edit_message_text else Reply_text)
        (if session_blocks s uid = []
         then ''No content added yet. Send me messages to build your post.''
         else preview_header (preview_channel s uid) (length (session_blocks s uid)) @
              concat (preview_items (session_blocks s uid)) @
              preview_remainder (length (session_blocks s uid)))]"
    unfolding show_post_preview_def Let_def new_events_def session_blocks_def
      preview_channel_def build_preview_eq
    by (simp add: emit_simps)
  have hd: "\<exists>pre. preview_header ch n = pre @ ''<b>Messages:</b> '' @ str_nat n @ nl @ nl"
    unfolding preview_header_def
    by (rule exI[of _ "emoji_clipboard @ '' <b>Post Preview</b>'' @ nl @ nl @
         ''<b>Channel:</b> '' @
         (case ch of Some c \<Rightarrow> str_opt (ch_name c) | None \<Rightarrow> ''Not selected'') @ nl"]) simp
  have inj: "str_nat n = str_nat n' \<longrightarrow> n = n'"
    using str_nat_inj by blast
  have len: "length (preview_items msgs) = min (length msgs) 3"
    by (simp add: preview_items_def)
  have items: "\<forall>k < min (length msgs) 3. preview_items msgs ! k = preview_item (Suc k) (msgs ! k)"
    by (simp add: preview_items_def)
  have l1: "nonempty (md_text b) = Some t \<longrightarrow>
      preview_item i b = str_nat i @ ''. '' @ emoji_memo @ '' '' @
        (if py_len t \<le> 100 then t else py_take 100 t @ ''...'') @ nl"
    using preview_item_text[of b t i] by blast
  have l2: "nonempty (md_text b) = None \<and> nonempty (md_photo b) \<noteq> None \<longrightarrow>
      preview_item i b = str_nat i @ ''. '' @ emoji_camera @ '' Photo with caption'' @ nl"
    using preview_item_media(1)[of b i] by blast
  have l3: "nonempty (md_text b) = None \<and> nonempty (md_photo b) = None \<and>
    nonempty (md_video b) \<noteq> None \<longrightarrow>
      preview_item i b = str_nat i @ ''. '' @ emoji_movie @ '' Video with caption'' @ nl"
    using preview_item_media(2)[of b i] by blast
  have l4: "nonempty (md_text b) = None \<and> nonempty (md_photo b) = None \<and>
    nonempty (md_video b) = None \<and> nonempty (md_document b) \<noteq> None \<longrightarrow>
      preview_item i b = str_nat i @ ''. '' @ emoji_page @ '' Document with caption'' @ nl"
    using preview_item_media(3)[of b i] by blast
  have l5: "nonempty (md_text b) = None \<and> nonempty (md_photo b) = None \<and>
    nonempty (md_video b) = None \<and> nonempty (md_document b) = None \<longrightarrow>
      preview_item i b = []"
    using preview_item_media(4)[of b i] by blast
  from frame ev hd inj len items l1 l2 l3 l4 l5 show ?thesis by (intro conjI)
qed

theorem C7_preview_witness:
  "new_events ex_two_state (show_post_preview 7 False ex_two_state) =
     [Reply_text (preview_header (Some (ex_channel 7 (Some ''123456:token''))) 2 @
        concat (preview_items [ex_text_block 1 ''one'', ex_text_block 2 ''two'']) @ [])] \<and>
   nonempty (md_text (ex_text_block 2 ''two'')) = Some ''two'' \<and>
   preview_items [ex_text_block 1 ''one'', ex_text_block 2 ''two''] ! 1 =
     ''2. '' @ emoji_memo @ '' two'' @ nl \<and>
   user_data (show_post_preview 7 False ex_two_state) = user_data ex_two_state"
proof -
  note inst = C7_preview_reports_count_and_first_three
    [of 7 False ex_two_state "None" 2 2 "[ex_text_block 1 ''one'', ex_text_block 2 ''two'']"
        "ex_text_block 2 ''two''" "''two''" 2]
  have blocks: "session_blocks ex_two_state 7 = [ex_text_block 1 ''one'', ex_text_block 2 ''two'']"
    by (simp add: session_blocks_def ex_two_state_def ex_state_def)
  have chan: "preview_channel ex_two_state 7 = Some (ex_channel 7 (Some ''123456:token''))"
    by (simp add: preview_channel_def ex_two_state_def ex_state_def get_channel_def
        empty_database_def)
  have t: "nonempty (md_text (ex_text_block 2 ''two'')) = Some ''two''"
    by (simp add: ex_text_block_def ex_text_message_def make_message_data_def html_or_def
        truthy_def)
  have k: "(1::nat) < min (length [ex_text_block 1 ''one'', ex_text_block 2 ''two'']) 3"
    by simp
  from inst k have item: "preview_items [ex_text_block 1 ''one'', ex_text_block 2 ''two''] ! 1 =
      preview_item (Suc 1) ([ex_text_block 1 ''one'', ex_text_block 2 ''two''] ! 1)"
    by blast
  from inst t have "preview_item 2 (ex_text_block 2 ''two'') =
      str_nat 2 @ ''. '' @ emoji_memo @ '' '' @
        (if py_len ''two'' \<le> 100 then ''two'' else py_take 100 ''two'' @ ''...'') @ nl"
    by blast
  then have line: "preview_item (Suc 1) ([ex_text_block 1 ''one'', ex_text_block 2 ''two''] ! 1) =
      ''2. '' @ emoji_memo @ '' two'' @ nl"
    by (simp add: py_len_def is_continuation_def str_nat.simps[of 2] digit_char_def
        numeral_2_eq_2)
  from inst have ev: "new_events ex_two_state (show_post_preview 7 False ex_two_state) =
     [(if False then Edit_message_text else Reply_text)
        (if session_blocks ex_two_state 7 = []
         then ''No content added yet. Send me messages to build your post.''
         else preview_header (preview_channel ex_two_state 7) (length (session_blocks ex_two_state 7)) @
              concat (preview_items (session_blocks ex_two_state 7)) @
              preview_remainder (length (session_blocks ex_two_state 7)))]"
    by blast
  from inst have ud: "user_data (show_post_preview 7 False ex_two_state) = user_data ex_two_state"
    by blast
  have ev': "new_events ex_two_state (show_post_preview 7 False ex_two_state) =
     [Reply_text (preview_header (Some (ex_channel 7 (Some ''123456:token''))) 2 @
        concat (preview_items [ex_text_block 1 ''one'', ex_text_block 2 ''two'']) @ [])]"
    unfolding ev blocks chan by (simp add: preview_remainder_def numeral_2_eq_2)
  from ev' t item[unfolded line] ud show ?thesis by (intro conjI)
qed

text \<open>
  Claim C8 says that while a session is composing, every incoming content message appends
  exactly one block. \<open>handle_text_message\<close> first looks the selected channel up and, when
  the registry does not hold it, replies "Channel not found." and appends nothing; picking
  a channel (\<open>select_channel_...\<close>) starts composing without that check.
  Counterexample, from boot: user 7 picks channel 5, which the registry does not hold, and
  sends a text message; the session is composing and holds no block afterwards. (And a
  message with a document, which has a caption and no text, passes none of the filters of
  \<open>setup_handlers\<close>: composing for a channel the registry holds, it changes nothing.)
\<close>

theorem C8_unknown_channel_counterexample:
  "creating_post (user_data
      (dispatch ex_env ''u'' (ex_user 7) (Callback ''select_channel_5'') initial_state) 7) =
     Some True \<and>
   post_messages (user_data
      (dispatch ex_env ''u'' (ex_user 7) (Message (ex_text_message 1 ''Hello''))
        (dispatch ex_env ''u'' (ex_user 7) (Callback ''select_channel_5'') initial_state)) 7) =
     None \<and>
   trace (dispatch ex_env ''u'' (ex_user 7) (Message (ex_text_message 1 ''Hello''))
        (dispatch ex_env ''u'' (ex_user 7) (Callback ''select_channel_5'') initial_state)) =
     [Query_answer None, Reply_text ''Channel not found.''] \<and>
   dispatch ex_env ''u'' (ex_user 7) (Message ex_document_message) (ex_state None []) =
     ex_state None []"
proof -
  have lit: "py_int ex_env (split_last ''select_channel_5'') = Some 5"
    by (simp add: py_int_def ascii_int_def split_last_def strip_def is_space_def
        digits_value_def is_digit_def)
  have cb: "handle_callback ex_env (ex_user 7) ''select_channel_5'' initial_state =
      (None, initial_state\<lparr>
         user_data := (user_data initial_state)
           (7 := empty_session\<lparr>selected_channel := Some 5, creating_post := Some True\<rparr>),
         trace := [Query_answer None]\<rparr>)"
    by (simp add: handle_callback_def Let_def startswith_def lit emit_def initial_state_def
        ex_user_def get_channel_def empty_database_def)
  have plain: "plain_text_message (ex_text_message 1 ''Hello'')"
    by (simp add: plain_text_message_def filter_forwarded_def filter_text_def
        filter_command_def truthy_def ex_text_message_def)
  have doc: "dispatch ex_env ''u'' (ex_user 7) (Message ex_document_message) (ex_state None []) =
     ex_state None []"
    by (simp add: filter_forwarded_def filter_text_def truthy_def ex_document_message_def)
  show ?thesis
    unfolding dispatch_plain[OF plain] doc
    unfolding dispatch.simps cb
    by (simp add: handle_text_message_def initial_state_def ex_defs emit_def)
qed

text \<open>
  Claim C8, amended: while the session is composing and the registry holds its selected
  channel, every incoming text message (one that is not forwarded, has text and is no
  command, which is what the dispatcher hands to \<open>handle_text_message\<close>) appends exactly
  one block at the end of that user's block list, leaving the other sessions and the
  store alone; the block holds the message's HTML text (its Markdown text when there is
  no HTML text) and its entities as they came, with the HTML caption (else the caption) and
  the caption entities when the message carries a photo, a video or a document. For such
  messages arriving one after the other, the block list grows by their blocks in arrival
  order, duplicates included. When the registry does not hold the selected channel, the
  message is answered with "Channel not found." and nothing else changes. A forwarded
  message goes to the forwarded-message handler and appends nothing.
\<close>

theorem C8_text_message_appends_one_block:
  "(creating_post (user_data s (user_id u)) = Some True \<and>
    get_channel (db s) (selected_channel (user_data s (user_id u))) = Some ch \<and>
    plain_text_message m \<longrightarrow>
      post_messages (user_data (dispatch e upd u (Message m) s) (user_id u)) =
        Some (session_blocks s (user_id u) @ [make_message_data (now_isoformat e) m]) \<and>
      (\<forall>v. v \<noteq> user_id u \<longrightarrow>
         user_data (dispatch e upd u (Message m) s) v = user_data s v) \<and>
      db (dispatch e upd u (Message m) s) = db s \<and>
      md_text (make_message_data (now_isoformat e) m) =
        (if truthy (msg_text_html m) then msg_text_html m else msg_text_markdown m) \<and>
      md_entities (make_message_data (now_isoformat e) m) = msg_entities m \<and>
      (msg_photo m \<noteq> [] \<or> msg_video m \<noteq> None \<or> msg_document m \<noteq> None \<longrightarrow>
         md_caption (make_message_data (now_isoformat e) m) =
           Some (if truthy (msg_caption_html m) then msg_caption_html m else msg_caption m) \<and>
         md_caption_entities (make_message_data (now_isoformat e) m) =
           Some (msg_caption_entities m))) \<and>
   (creating_post (user_data s (user_id u)) = Some True \<and>
    get_channel (db s) (selected_channel (user_data s (user_id u))) = None \<and>
    plain_text_message m \<longrightarrow>
      dispatch e upd u (Message m) s = emit (Reply_text ''Channel not found.'') s) \<and>
   (filter_forwarded m \<longrightarrow>
      (\<forall>v. post_messages (user_data (dispatch e upd u (Message m) s) v) =
           post_messages (user_data s v))) \<and>
   (creating_post (user_data s (user_id u)) = Some True \<and>
    get_channel (db s) (selected_channel (user_data s (user_id u))) = Some ch \<and>
    list_all plain_text_message (map snd ems) \<longrightarrow>
      session_blocks (feed u ems s) (user_id u) =
        session_blocks s (user_id u) @
          map (\<lambda>em. make_message_data (now_isoformat (fst em)) (snd em)) ems)"
proof (intro conjI impI)
  assume a: "creating_post (user_data s (user_id u)) = Some True \<and>
    get_channel (db s) (selected_channel (user_data s (user_id u))) = Some ch \<and>
    plain_text_message m"
  then have c: "creating_post (user_data s (user_id u)) = Some True"
    and g: "get_channel (db s) (selected_channel (user_data s (user_id u))) = Some ch"
    and p: "plain_text_message m"
    by simp_all
  note st = text_message_state[OF c g, of e m]
  show "post_messages (user_data (dispatch e upd u (Message m) s) (user_id u)) =
        Some (session_blocks s (user_id u) @ [make_message_data (now_isoformat e) m])"
    unfolding dispatch_plain[OF p] by (simp add: st)
  show "\<forall>v. v \<noteq> user_id u \<longrightarrow>
         user_data (dispatch e upd u (Message m) s) v = user_data s v"
    unfolding dispatch_plain[OF p] by (simp add: st)
  show "db (dispatch e upd u (Message m) s) = db s"
    unfolding dispatch_plain[OF p] by (simp add: st)
next
  show "md_text (make_message_data (now_isoformat e) m) =
        (if truthy (msg_text_html m) then msg_text_html m else msg_text_markdown m)"
    by (simp add: make_message_data_def html_or_def Let_def)
  show "md_entities (make_message_data (now_isoformat e) m) = msg_entities m"
    by (simp add: make_message_data_def html_or_def Let_def)
next
  assume "msg_photo m \<noteq> [] \<or> msg_video m \<noteq> None \<or> msg_document m \<noteq> None"
  then show "md_caption (make_message_data (now_isoformat e) m) =
           Some (if truthy (msg_caption_html m) then msg_caption_html m else msg_caption m)"
    and "md_caption_entities (make_message_data (now_isoformat e) m) =
           Some (msg_caption_entities m)"
    by (auto simp: make_message_data_def html_or_def Let_def)
next
  assume a: "creating_post (user_data s (user_id u)) = Some True \<and>
    get_channel (db s) (selected_channel (user_data s (user_id u))) = None \<and>
    plain_text_message m"
  then have p: "plain_text_message m" by simp
  from a show "dispatch e upd u (Message m) s = emit (Reply_text ''Channel not found.'') s"
    unfolding dispatch_plain[OF p] by (simp add: text_message_not_found)
next
  assume f: "filter_forwarded m"
  show "\<forall>v. post_messages (user_data (dispatch e upd u (Message m) s) v) =
           post_messages (user_data s v)"
    unfolding dispatch_forwarded[OF f] by (simp add: forwarded_blocks)
next
  assume a: "creating_post (user_data s (user_id u)) = Some True \<and>
    get_channel (db s) (selected_channel (user_data s (user_id u))) = Some ch \<and>
    list_all plain_text_message (map snd ems)"
  then show "session_blocks (feed u ems s) (user_id u) =
        session_blocks s (user_id u) @
          map (\<lambda>em. make_message_data (now_isoformat (fst em)) (snd em)) ems"
    using feed_blocks[of s u ch ems] by blast
qed

theorem C8_text_message_witness:
  "creating_post (user_data (ex_state None [ex_text_block 1 ''one'']) (user_id (ex_user 7))) =
     Some True \<and>
   get_channel (db (ex_state None [ex_text_block 1 ''one'']))
     (selected_channel (user_data (ex_state None [ex_text_block 1 ''one'']) (user_id (ex_user 7)))) =
     Some (ex_channel 7 None) \<and>
   plain_text_message (ex_text_message 1 ''one'') \<and>
   post_messages (user_data (dispatch ex_env ''u'' (ex_user 7) (Message (ex_text_message 1 ''one''))
      (ex_state None [ex_text_block 1 ''one''])) (user_id (ex_user 7))) =
     Some [ex_text_block 1 ''one'',
           make_message_data (now_isoformat ex_env) (ex_text_message 1 ''one'')]"
proof -
  have h1: "creating_post (user_data (ex_state None [ex_text_block 1 ''one''])
      (user_id (ex_user 7))) = Some True"
    by (simp add: ex_state_def ex_user_def empty_session_def)
  have h2: "get_channel (db (ex_state None [ex_text_block 1 ''one'']))
     (selected_channel (user_data (ex_state None [ex_text_block 1 ''one''])
        (user_id (ex_user 7)))) = Some (ex_channel 7 None)"
    by (simp add: ex_state_def ex_user_def empty_session_def get_channel_def
        empty_database_def)
  have h3: "plain_text_message (ex_text_message 1 ''one'')"
    by (simp add: plain_text_message_def filter_forwarded_def filter_text_def
        filter_command_def truthy_def ex_text_message_def)
  have b: "session_blocks (ex_state None [ex_text_block 1 ''one'']) (user_id (ex_user 7)) =
      [ex_text_block 1 ''one'']"
    by (simp add: session_blocks_def ex_state_def ex_user_def)
  note inst = C8_text_message_appends_one_block
    [of "ex_state None [ex_text_block 1 ''one'']" "ex_user 7" "ex_channel 7 None"
        "ex_text_message 1 ''one''" ex_env "''u''" "[]"]
  from inst h1 h2 h3
  have "post_messages (user_data (dispatch ex_env ''u'' (ex_user 7)
      (Message (ex_text_message 1 ''one'')) (ex_state None [ex_text_block 1 ''one'']))
      (user_id (ex_user 7))) =
     Some (session_blocks (ex_state None [ex_text_block 1 ''one'']) (user_id (ex_user 7)) @
       [make_message_data (now_isoformat ex_env) (ex_text_message 1 ''one'')])"
    by blast
  with h1 h2 h3 show ?thesis unfolding b by simp
qed

text \<open>
  Claim C9: the forwarded-message handler leaves the channel registry (the whole state)
  unchanged unless the sender's session has the flag \<open>adding_channel\<close> set; and no
  operation of the program sets that flag: after any update, a session holds the flag
  only if it held it before; \<open>/addchannel\<close> leaves every session unchanged. Hence in every
  run from boot no session ever holds the flag and the registry stays empty.
\<close>

theorem C9_forwarded_needs_flag_never_set:
  "(adding_channel (user_data s (user_id u)) \<noteq> Some True \<longrightarrow>
      handle_forwarded_message e u m s = s \<and>
      channels (db (handle_forwarded_message e u m s)) = channels (db s)) \<and>
   (adding_channel (user_data (dispatch e upd u x s) v) = Some b \<longrightarrow>
      adding_channel (user_data s v) = Some b) \<and>
   user_data (dispatch e upd u Cmd_addchannel s) = user_data s \<and>
   adding_channel (user_data (run xs initial_state) v) = None \<and>
   channels (db (run xs initial_state)) = []"
proof -
  have "adding_channel (user_data (run xs initial_state) v) = None"
  proof (cases "adding_channel (user_data (run xs initial_state) v)")
    case None
    then show ?thesis .
  next
    case (Some b)
    from run_flag[OF this] show ?thesis
      by (simp add: initial_state_def empty_session_def)
  qed
  then show ?thesis
    using dispatch_flag[of e upd u x s v b] registry_stays_empty[of xs]
    by (simp add: forwarded_without_flag command_frames)
qed

theorem C9_flag_witness:
  "adding_channel (user_data initial_state 1) \<noteq> Some True \<and>
   handle_forwarded_message ex_env (ex_user 1) ex_forwarded_message initial_state =
     initial_state \<and>
   channels (db (run [(ex_env, ''u'', ex_user 1, Cmd_addchannel),
       (ex_env, ''u'', ex_user 1, Message ex_forwarded_message)] initial_state)) = []"
proof -
  have h1: "adding_channel (user_data initial_state (user_id (ex_user 1))) \<noteq> Some True"
    by (simp add: initial_state_def empty_session_def)
  note inst = C9_forwarded_needs_flag_never_set
         [of initial_state "ex_user 1" ex_env ex_forwarded_message "''u''" Cmd_addchannel 1 True
            "[(ex_env, ''u'', ex_user 1, Cmd_addchannel),
              (ex_env, ''u'', ex_user 1, Message ex_forwarded_message)]"]
  from inst h1 have a: "handle_forwarded_message ex_env (ex_user 1) ex_forwarded_message
      initial_state = initial_state"
    by blast
  from inst have b: "channels (db (run [(ex_env, ''u'', ex_user 1, Cmd_addchannel),
       (ex_env, ''u'', ex_user 1, Message ex_forwarded_message)] initial_state)) = []"
    by blast
  have c: "adding_channel (user_data initial_state 1) \<noteq> Some True"
    by (simp add: initial_state_def empty_session_def)
  from a b c show ?thesis by blast
qed

text \<open>
  Claim C10: if a transport send raises an error during delivery, no Post is written
  (the store is unchanged), the session of the user is unchanged, and the last thing the
  handler does is to answer the callback with "Error sending post: " and the error. And a
  Post is written only after the loop has run through every block: when the trace of a
  delivery holds the store write, no call of that delivery failed, and the calls before
  the write are the calls of the whole block list.
\<close>

theorem C10_send_error_keeps_store_and_session:
  "(Channel_send c (Inl err) \<in> set (new_events s (send_post_to_channel e uid s)) \<longrightarrow>
      db (send_post_to_channel e uid s) = db s \<and>
      user_data (send_post_to_channel e uid s) = user_data s \<and>
      (\<forall>p. Db_put_post p \<notin> set (new_events s (send_post_to_channel e uid s))) \<and>
      last (trace (send_post_to_channel e uid s)) =
        Query_answer (Some (''Error sending post: '' @ err))) \<and>
   (Db_put_post pid \<in> set (new_events s (send_post_to_channel e uid s)) \<longrightarrow>
      (\<forall>c' err'. Channel_send c' (Inl err')
          \<notin> set (new_events s (send_post_to_channel e uid s))) \<and>
      (\<exists>cid msgs. selected_channel (user_data s uid) = Some cid \<and>
          post_messages (user_data s uid) = Some msgs \<and>
          attempts (takeWhile (\<lambda>ev. ev \<noteq> Db_put_post pid)
            (new_events s (send_post_to_channel e uid s))) = calls cid msgs))"
proof (rule conjI; rule impI)
  assume err: "Channel_send c (Inl err) \<in> set (new_events s (send_post_to_channel e uid s))"
  show "db (send_post_to_channel e uid s) = db s \<and>
      user_data (send_post_to_channel e uid s) = user_data s \<and>
      (\<forall>p. Db_put_post p \<notin> set (new_events s (send_post_to_channel e uid s))) \<and>
      last (trace (send_post_to_channel e uid s)) =
        Query_answer (Some (''Error sending post: '' @ err))"
  proof (cases rule: deliver_cases[of e uid s])
    case (early notice)
    with err show ?thesis by (simp add: new_events_def emit_simps)
  next
    case (init_error err')
    with err show ?thesis by (simp add: new_events_def telegram_error_simps)
  next
    case (send_error cid msgs ids err')
    from err have "err' = err"
      unfolding send_error(4) new_events_def
      using sent_ok_not_Inl[of c err "zip (calls cid msgs) ids"]
      by (auto simp: telegram_error_simps)
    then show ?thesis
      unfolding send_error(4) new_events_def
      using sent_ok_not_put[of _ "zip (calls cid msgs) ids"]
      by (auto simp: telegram_error_simps)
  next
    case (success cid ch msgs ids)
    from err show ?thesis
      unfolding success(5) new_events_def
      using sent_ok_not_Inl[of c err "zip (calls cid msgs) ids"]
      by auto
  qed
next
  assume "Db_put_post pid \<in> set (new_events s (send_post_to_channel e uid s))"
  then obtain cid ch msgs ids where
    sess: "selected_channel (user_data s uid) = Some cid"
      "post_messages (user_data s uid) = Some msgs"
    and len: "length ids = length (calls cid msgs)"
    and evs: "new_events s (send_post_to_channel e uid s) =
       map sent_ok (zip (calls cid msgs) ids) @
       [Db_put_post pid, Edit_message_text (success_text ch ids (now_strftime e))]"
    by (rule put_post_shape)
  have tw: "takeWhile (\<lambda>ev. ev \<noteq> Db_put_post pid)
      (new_events s (send_post_to_channel e uid s)) = map sent_ok (zip (calls cid msgs) ids)"
    unfolding evs by (simp add: takeWhile_sends)
  have no_err: "\<forall>c' err'. Channel_send c' (Inl err')
          \<notin> set (new_events s (send_post_to_channel e uid s))"
    unfolding evs using sent_ok_not_Inl by simp
  have all_sent: "\<exists>cid msgs. selected_channel (user_data s uid) = Some cid \<and>
          post_messages (user_data s uid) = Some msgs \<and>
          attempts (takeWhile (\<lambda>ev. ev \<noteq> Db_put_post pid)
            (new_events s (send_post_to_channel e uid s))) = calls cid msgs"
    unfolding tw using sess len
    by (simp add: attempts_sent_ok map_fst_zip_le)
  from no_err all_sent
  show "(\<forall>c' err'. Channel_send c' (Inl err')
          \<notin> set (new_events s (send_post_to_channel e uid s))) \<and>
      (\<exists>cid msgs. selected_channel (user_data s uid) = Some cid \<and>
          post_messages (user_data s uid) = Some msgs \<and>
          attempts (takeWhile (\<lambda>ev. ev \<noteq> Db_put_post pid)
            (new_events s (send_post_to_channel e uid s))) = calls cid msgs)"
    by (rule conjI)
qed

theorem C10_send_error_witness:
  "Channel_send (Send_message (- 1001) ''two'' []) (Inl ''Timed out'')
     \<in> set (new_events ex_three_state (send_post_to_channel ex_flaky_env 7 ex_three_state)) \<and>
   posts (db (send_post_to_channel ex_flaky_env 7 ex_three_state)) = posts (db ex_three_state) \<and>
   user_data (send_post_to_channel ex_flaky_env 7 ex_three_state) 7 = user_data ex_three_state 7 \<and>
   last (trace (send_post_to_channel ex_flaky_env 7 ex_three_state)) =
     Query_answer (Some ''Error sending post: Timed out'') \<and>
   Db_put_post ''-1001_1704110400.0''
     \<in> set (new_events ex_two_state (send_post_to_channel ex_env 7 ex_two_state)) \<and>
   (\<forall>c' err'. Channel_send c' (Inl err')
          \<notin> set (new_events ex_two_state (send_post_to_channel ex_env 7 ex_two_state)))"
proof -
  have h: "Channel_send (Send_message (- 1001) ''two'' []) (Inl ''Timed out'')
     \<in> set (new_events ex_three_state (send_post_to_channel ex_flaky_env 7 ex_three_state))"
    unfolding ex_three_first_run by (simp add: new_events_def ex_defs)
  have h2: "Db_put_post ''-1001_1704110400.0''
     \<in> set (new_events ex_two_state (send_post_to_channel ex_env 7 ex_two_state))"
    unfolding ex_two_run by (simp add: new_events_def ex_defs)
  from C10_send_error_keeps_store_and_session
         [of "Send_message (- 1001) ''two'' []" "''Timed out''" ex_three_state ex_flaky_env 7]
       C10_send_error_keeps_store_and_session
         [of _ _ ex_two_state ex_env 7 "''-1001_1704110400.0''"]
       h h2
  show ?thesis by simp
qed

end
